theory Spec2Isabelle
  imports Main "HOL-Library.Word" "HOL-Library.Sublist"
begin

section \<open>JavaScript strings and the built-ins the page calls\<close>

text \<open>
  A JavaScript string is a sequence of UTF-16 code units. String literals of the
  source that are plain ASCII are written with \<open>utf16\<close>; the em dash of the export
  header is the code unit 0x2014.
\<close>

type_synonym code_unit = "16 word"
type_synonym jsstring = "code_unit list"

definition utf16 :: "string \<Rightarrow> jsstring" where
  "utf16 s = map (\<lambda>c. of_char c) s"

text \<open>The character class \<^verbatim>\<open>[,\n]\<close> of the regular expression in \<^verbatim>\<open>splitKeywords\<close>.\<close>

definition isSeparator :: "code_unit \<Rightarrow> bool" where
  "isSeparator c \<longleftrightarrow> c = 0x2C \<or> c = 0x0A"

text \<open>
  \<^verbatim>\<open>String.prototype.split\<close> with a separator that matches exactly one code unit:
  the scan keeps the piece read so far in \<open>cur\<close>, closes it at every separator and
  closes the last piece at the end of the string. The empty string gives one empty piece.
\<close>

fun splitScan :: "jsstring \<Rightarrow> jsstring \<Rightarrow> jsstring list" where
  "splitScan cur [] = [cur]"
| "splitScan cur (c # cs) =
     (if isSeparator c then cur # splitScan [] cs else splitScan (cur @ [c]) cs)"

definition String_split :: "jsstring \<Rightarrow> jsstring list" where
  "String_split s = splitScan [] s"

text \<open>
  \<^verbatim>\<open>String.prototype.trim\<close> strips the code points of WhiteSpace and LineTerminator
  (ECMAScript: TAB, VT, FF, SP, NBSP, ZWNBSP, the category Zs, LF, CR, LS, PS)
  from both ends.
\<close>

definition isWhiteSpace :: "code_unit \<Rightarrow> bool" where
  "isWhiteSpace c \<longleftrightarrow>
     c \<in> set [0x09, 0x0A, 0x0B, 0x0C, 0x0D, 0x20, 0xA0, 0x1680,
              0x2000, 0x2001, 0x2002, 0x2003, 0x2004, 0x2005, 0x2006,
              0x2007, 0x2008, 0x2009, 0x200A,
              0x2028, 0x2029, 0x202F, 0x205F, 0x3000, 0xFEFF]"

definition String_trim :: "jsstring \<Rightarrow> jsstring" where
  "String_trim s = rev (dropWhile isWhiteSpace (rev (dropWhile isWhiteSpace s)))"

text \<open>\<^verbatim>\<open>Array.prototype.join\<close>.\<close>

fun join :: "jsstring \<Rightarrow> jsstring list \<Rightarrow> jsstring" where
  "join sep [] = []"
| "join sep [x] = x"
| "join sep (x # y # ys) = x @ sep @ join sep (y # ys)"

text \<open>
  \<^verbatim>\<open>Number.prototype.toString\<close> on an array index plus one: a positive integer
  below \<open>2^32\<close>, which JavaScript prints in plain decimal.
\<close>

fun natToString :: "nat \<Rightarrow> jsstring" where
  "natToString n =
     (if n < 10 then [of_nat (48 + n)]
      else natToString (n div 10) @ [of_nat (48 + n mod 10)])"

declare natToString.simps [simp del]


section \<open>The page: \<^verbatim>\<open>src/app/page.tsx\<close>\<close>

subsection \<open>Form state\<close>

text \<open>
  The type \<open>'n\<close> stands for the JavaScript number type; the conversions between
  strings and numbers are built-ins and are passed in as parameters.
\<close>

record 'n FormState =
  form_topic :: jsstring
  form_minutes :: 'n
  form_audience :: jsstring
  form_tone :: jsstring
  form_callToAction :: jsstring
  form_keywords :: jsstring

definition DEFAULT_FORM :: "('n::numeral) FormState" where
  "DEFAULT_FORM =
     \<lparr> form_topic = utf16 ''AI-assisted design systems'',
       form_minutes = 9,
       form_audience = utf16 ''design directors at product-led companies'',
       form_tone = utf16 ''Authoritative'',
       form_callToAction =
         utf16 ''Download the design ops blueprint and align your next sprint in under 30 minutes.'',
       form_keywords = utf16 ''design automation, ai design workflow, figma systems'' \<rparr>"

definition TONE_OPTIONS :: "jsstring list" where
  "TONE_OPTIONS =
     [utf16 ''Authoritative'', utf16 ''Educational'', utf16 ''Inspirational'',
      utf16 ''Entertaining'', utf16 ''Analytical'']"

text \<open>
  \<^verbatim>\<open>input.split(/[,\n]/).map((word) => word.trim()).filter(Boolean)\<close>:
  \<^verbatim>\<open>Boolean\<close> of a string is false exactly for the empty string.
\<close>

definition splitKeywords :: "jsstring \<Rightarrow> jsstring list" where
  "splitKeywords input =
     filter (\<lambda>word. word \<noteq> []) (map (\<lambda>word. String_trim word) (String_split input))"

subsection \<open>The minutes field\<close>

text \<open>
  \<^verbatim>\<open>Number(event.target.value || 9)\<close>: the operand of \<^verbatim>\<open>Number\<close> is the field's
  string when that string is truthy (not empty) and the number 9 otherwise.
  \<^verbatim>\<open>Number\<close> returns a number as it is and converts a string with the built-in
  \<open>StringToNumber\<close>.
\<close>

datatype 'n jsvalue = JSString jsstring | JSNumber 'n

definition orElse :: "jsstring \<Rightarrow> 'n jsvalue \<Rightarrow> 'n jsvalue" where
  "orElse lhs rhs = (if lhs \<noteq> [] then JSString lhs else rhs)"

fun Number :: "(jsstring \<Rightarrow> 'n) \<Rightarrow> 'n jsvalue \<Rightarrow> 'n" where
  "Number StringToNumber (JSNumber n) = n"
| "Number StringToNumber (JSString s) = StringToNumber s"

definition onMinutesChange ::
    "(jsstring \<Rightarrow> 'n) \<Rightarrow> jsstring \<Rightarrow> ('n::numeral) FormState \<Rightarrow> 'n FormState" where
  "onMinutesChange StringToNumber targetValue prev =
     prev\<lparr> form_minutes := Number StringToNumber (orElse targetValue (JSNumber 9)) \<rparr>"

subsection \<open>The brief handed to the engine\<close>

record 'n Brief =
  brief_topic :: jsstring
  brief_minutes :: 'n
  brief_targetAudience :: jsstring
  brief_tone :: jsstring
  brief_keywords :: "jsstring list"
  brief_callToAction :: jsstring

text \<open>The object literal that \<^verbatim>\<open>handleGenerate\<close> passes to \<^verbatim>\<open>generateVideoBlueprint\<close>.\<close>

definition handleGenerateBrief :: "'n FormState \<Rightarrow> 'n Brief" where
  "handleGenerateBrief form =
     \<lparr> brief_topic = form_topic form,
       brief_minutes = form_minutes form,
       brief_targetAudience = form_audience form,
       brief_tone = form_tone form,
       brief_keywords = splitKeywords (form_keywords form),
       brief_callToAction = form_callToAction form \<rparr>"

subsection \<open>Clipboard\<close>

text \<open>
  \<^verbatim>\<open>navigator.clipboard?.writeText(text)\<close>: the optional chain yields
  \<^verbatim>\<open>undefined\<close> when the property \<^verbatim>\<open>clipboard\<close> is null or undefined and calls
  \<^verbatim>\<open>writeText\<close> otherwise. Reading the global \<^verbatim>\<open>navigator\<close> where it is not
  declared throws a ReferenceError. A call of \<^verbatim>\<open>writeText\<close> returns a promise
  (type \<open>'p\<close>) or throws.
\<close>

datatype js_error = ReferenceError | TypeError

datatype 'p returned = Undefined | Returned 'p

record 'p Clipboard =
  writeText :: "jsstring \<Rightarrow> js_error + 'p"

record 'p Navigator =
  clipboard :: "'p Clipboard option"

record 'p Globals =
  navigator :: "'p Navigator option"

definition copyToClipboard :: "'p Globals \<Rightarrow> jsstring \<Rightarrow> js_error + 'p returned" where
  "copyToClipboard globals text =
     (case navigator globals of
        None \<Rightarrow> Inl ReferenceError
      | Some nav \<Rightarrow>
          (case clipboard nav of
             None \<Rightarrow> Inr Undefined
           | Some cb \<Rightarrow>
               (case writeText cb text of
                  Inl e \<Rightarrow> Inl e
                | Inr promise \<Rightarrow> Inr (Returned promise))))"


subsection \<open>The blueprint\<close>

text \<open>
  Modelled from the spec: the types of \<^verbatim>\<open>lib/types.ts\<close>, which is not part of the
  sources at hand. The fields are those of the data model (section 3 of the design),
  under the names by which the page reads them; a field the page prints as text is
  a string, a field it iterates over is a list.
\<close>

record TrendSignal =
  headline :: jsstring
  rationale :: jsstring

record NicheAnalysis =
  positioningStatement :: jsstring
  trendSignals :: "TrendSignal list"
  audienceQuestions :: "jsstring list"
  competitorWatch :: "jsstring list"

record 'n OutlineSection =
  title :: jsstring
  purpose :: jsstring
  talkingPoints :: "jsstring list"
  estimatedDuration :: 'n

record ScriptSection =
  script_title :: jsstring
  voiceover :: jsstring
  visualPrompts :: "jsstring list"
  engagementHook :: jsstring

record ChapterMarker =
  timestamp :: jsstring
  label :: jsstring

record SeoPackage =
  videoTitle :: jsstring
  description :: jsstring
  keywordTags :: "jsstring list"
  hashtags :: "jsstring list"
  chapterMarkers :: "ChapterMarker list"

record 'n TimelineDays =
  days_preProduction :: 'n
  days_production :: 'n
  days_postProduction :: 'n

record 'n ChecklistTask =
  task_id :: jsstring
  task_title :: jsstring
  task_description :: jsstring
  phase :: jsstring
  owner :: jsstring
  dueAfterHours :: 'n

record AssetRequest =
  asset_label :: jsstring
  asset_notes :: jsstring

record 'n ProductionPlan =
  timelineDays :: "'n TimelineDays"
  checklist :: "'n ChecklistTask list"
  assetRequests :: "AssetRequest list"

record UploadPackage =
  optimizedTitle :: jsstring
  optimizedDescription :: jsstring
  uploadTags :: "jsstring list"
  thumbnailConcept :: jsstring
  endScreenIdeas :: "jsstring list"
  playlistTargets :: "jsstring list"

record PublishingPlan =
  bestPublishWindows :: "jsstring list"
  communityPrompts :: "jsstring list"
  crossPromotion :: "jsstring list"

record 'n VideoBlueprint =
  topic :: jsstring
  videoLengthMinutes :: 'n
  targetAudience :: jsstring
  tone :: jsstring
  narrativeAngle :: jsstring
  primaryKeywords :: "jsstring list"
  callToAction :: jsstring
  nicheAnalysis :: NicheAnalysis
  outline :: "'n OutlineSection list"
  script :: "ScriptSection list"
  seo :: SeoPackage
  production :: "'n ProductionPlan"
  upload :: UploadPackage
  publishing :: PublishingPlan

text \<open>
  \<^verbatim>\<open>outlineDurationTotal\<close>: zero while no blueprint is held, otherwise the
  \<^verbatim>\<open>reduce\<close> that adds the sections' durations from the left, starting at 0.
\<close>

definition outlineDurationTotal :: "('n::{zero,plus}) VideoBlueprint option \<Rightarrow> 'n" where
  "outlineDurationTotal blueprint =
     (case blueprint of
        None \<Rightarrow> 0
      | Some bp \<Rightarrow> foldl (\<lambda>acc section. acc + estimatedDuration section) 0 (outline bp))"

text \<open>
  \<^verbatim>\<open>handleGenerate\<close> on the page's state: the engine is called with the brief built
  from the form; its plan becomes the held blueprint, and \<^verbatim>\<open>isThinking\<close> is reset
  whether or not the engine throws.
\<close>

record 'n PageState =
  page_form :: "'n FormState"
  page_blueprint :: "'n VideoBlueprint option"
  page_isThinking :: bool

definition handleGenerate ::
    "('n Brief \<Rightarrow> js_error + 'n VideoBlueprint) \<Rightarrow> 'n PageState \<Rightarrow> 'n PageState" where
  "handleGenerate generate state =
     (case generate (handleGenerateBrief (page_form state)) of
        Inr plan \<Rightarrow> state\<lparr> page_blueprint := Some plan, page_isThinking := False \<rparr>
      | Inl e \<Rightarrow> state\<lparr> page_isThinking := False \<rparr>)"

subsection \<open>Plain-text export\<close>

text \<open>
  Template literals print a number with the built-in \<open>numberToString\<close>, a parameter
  here; the index of a script section is printed by \<open>natToString\<close>.
\<close>

definition nl :: jsstring where
  "nl = [0x0A]"

definition scriptSectionText :: "nat \<Rightarrow> ScriptSection \<Rightarrow> jsstring" where
  "scriptSectionText index section =
     utf16 ''Section '' @ natToString (index + 1) @ utf16 '': '' @ script_title section @ nl @
     voiceover section @ nl @ nl @ utf16 ''Visual Prompts:'' @ nl @ utf16 ''- '' @
     join (nl @ utf16 ''- '') (visualPrompts section) @
     nl @ utf16 ''Engagement: '' @ engagementHook section @ nl"

definition scriptSections :: "'n VideoBlueprint \<Rightarrow> jsstring" where
  "scriptSections blueprint =
     join nl (map (\<lambda>(index, section). scriptSectionText index section)
                  (enumerate 0 (script blueprint)))"

definition exportLines :: "('n \<Rightarrow> jsstring) \<Rightarrow> 'n VideoBlueprint \<Rightarrow> jsstring list" where
  "exportLines numberToString blueprint =
     [ utf16 ''YouTube Blueprint '' @ [0x2014] @ utf16 '' '' @ topic blueprint,
       [],
       utf16 ''Audience: '' @ targetAudience blueprint,
       utf16 ''Tone: '' @ tone blueprint,
       utf16 ''Length: '' @ numberToString (videoLengthMinutes blueprint) @ utf16 '' minutes'',
       utf16 ''Narrative Angle: '' @ narrativeAngle blueprint,
       [],
       utf16 ''Niche Positioning:'',
       positioningStatement (nicheAnalysis blueprint),
       [],
       utf16 ''Trend Signals:'' ] @
     map (\<lambda>signal. utf16 ''- '' @ headline signal @ utf16 '': '' @ rationale signal)
         (trendSignals (nicheAnalysis blueprint)) @
     [ [],
       utf16 ''Outline:'' ] @
     map (\<lambda>section. utf16 ''- '' @ title section @ utf16 '' ('' @
                      numberToString (estimatedDuration section) @ utf16 '' min): '' @
                      purpose section)
         (outline blueprint) @
     [ [],
       utf16 ''Script:'',
       scriptSections blueprint,
       [],
       utf16 ''SEO Title:'',
       videoTitle (seo blueprint),
       [],
       utf16 ''SEO Description:'',
       description (seo blueprint),
       [],
       utf16 ''Tags:'',
       join (utf16 '', '') (keywordTags (seo blueprint)),
       [],
       utf16 ''Production Checklist:'' ] @
     map (\<lambda>task. utf16 ''- [ ] '' @ task_title task @ utf16 '' ('' @ phase task @
                   utf16 '', owner '' @ owner task @ utf16 '')'')
         (checklist (production blueprint)) @
     [ [],
       utf16 ''Upload Package:'',
       utf16 ''Title: '' @ optimizedTitle (upload blueprint),
       utf16 ''Thumbnail Concept: '' @ thumbnailConcept (upload blueprint),
       utf16 ''Call To Action: '' @ callToAction blueprint,
       [],
       utf16 ''Publishing Plan:'' ] @
     map (\<lambda>window. utf16 ''- '' @ window) (bestPublishWindows (publishing blueprint)) @
     [ [],
       utf16 ''Community Prompts:'' ] @
     map (\<lambda>prompt. utf16 ''- '' @ prompt) (communityPrompts (publishing blueprint)) @
     [ [],
       utf16 ''Cross Promotion:'' ] @
     map (\<lambda>idea. utf16 ''- '' @ idea) (crossPromotion (publishing blueprint))"

definition formatBlueprintText :: "('n \<Rightarrow> jsstring) \<Rightarrow> 'n VideoBlueprint \<Rightarrow> jsstring" where
  "formatBlueprintText numberToString blueprint = join nl (exportLines numberToString blueprint)"


text \<open>
  \<^verbatim>\<open>Number.prototype.toString\<close> on an integer, for the examples below: plain
  decimal with a leading minus sign, as JavaScript prints integers of magnitude
  below \<open>10^21\<close>.
\<close>

definition intToString :: "int \<Rightarrow> jsstring" where
  "intToString n =
     (if n < 0 then utf16 ''-'' @ natToString (nat (- n)) else natToString (nat n))"


section \<open>The synthesis engine\<close>

text \<open>
  Modelled from the spec: \<^verbatim>\<open>generateVideoBlueprint\<close> of \<^verbatim>\<open>lib/generators.ts\<close> and the
  category table of \<^verbatim>\<open>lib/data.ts\<close>. The page imports the function; neither file is
  part of the sources at hand. The definitions of this section follow sections 3 and 4
  of the design, in its words. What the design leaves open (the archetype lists with
  their weights, the tone set, the placeholders and every text template) is a field
  of the record \<open>Heuristics\<close>, so that nothing proved below depends on a choice of it.
\<close>

subsection \<open>Input normalizer (design 4.1)\<close>

text \<open>
  Modelled from the spec: the supported bound of the runtime, which the design gives
  as 5 to 25 minutes, as the page's minutes field does.
\<close>

definition minMinutes :: int where
  "minMinutes = 5"

definition maxMinutes :: int where
  "maxMinutes = 25"

text \<open>Modelled from the spec: duplicates removed while preserving first-seen order.\<close>

fun dedupe :: "'a list \<Rightarrow> 'a list \<Rightarrow> 'a list" where
  "dedupe seen [] = []"
| "dedupe seen (x # xs) =
     (if x \<in> set seen then dedupe seen xs else x # dedupe (x # seen) xs)"

text \<open>
  Modelled from the spec: keywords split on comma or newline, trimmed, emptied entries
  dropped, duplicates removed while preserving first-seen order: for one raw text, and
  for the list of texts of a raw brief.
\<close>

definition keywordEntries :: "jsstring \<Rightarrow> jsstring list" where
  "keywordEntries raw =
     filter (\<lambda>entry. entry \<noteq> []) (map String_trim (String_split raw))"

definition normalizeKeywordText :: "jsstring \<Rightarrow> jsstring list" where
  "normalizeKeywordText raw = dedupe [] (keywordEntries raw)"

definition normalizeKeywords :: "jsstring list \<Rightarrow> jsstring list" where
  "normalizeKeywords raws = dedupe [] (concat (map keywordEntries raws))"

text \<open>
  Modelled from the spec: a section archetype with its fixed proportion of the
  runtime, and the category heuristics: everything the engine takes from the category
  table and its templates, as functions of the normalized brief.
\<close>

record Archetype =
  arch_title :: jsstring
  arch_purpose :: jsstring
  arch_weight :: int

record Heuristics =
  toneSet :: "jsstring list"
  defaultTone :: jsstring
  placeholderTopic :: jsstring
  placeholderAudience :: jsstring
  placeholderCallToAction :: jsstring
  archetypesFor :: "int Brief \<Rightarrow> Archetype list"
  talkingPointsFor :: "int Brief \<Rightarrow> Archetype \<Rightarrow> jsstring list"
  narrativeAngleFor :: "int Brief \<Rightarrow> jsstring"
  nicheAnalysisFor :: "int Brief \<Rightarrow> NicheAnalysis"
  voiceoverFor :: "int Brief \<Rightarrow> int OutlineSection \<Rightarrow> jsstring"
  visualPromptsFor :: "int Brief \<Rightarrow> int OutlineSection \<Rightarrow> jsstring list"
  engagementHookFor :: "int Brief \<Rightarrow> bool \<Rightarrow> int OutlineSection \<Rightarrow> jsstring"
  videoTitleFor :: "int Brief \<Rightarrow> jsstring"
  descriptionFor :: "int Brief \<Rightarrow> jsstring"
  keywordTagsFor :: "int Brief \<Rightarrow> jsstring list"
  hashtagsFor :: "int Brief \<Rightarrow> jsstring list"
  productionFor :: "int Brief \<Rightarrow> int OutlineSection list \<Rightarrow> int ProductionPlan"
  uploadFor :: "int Brief \<Rightarrow> int OutlineSection list \<Rightarrow> UploadPackage"
  publishingFor :: "int Brief \<Rightarrow> int OutlineSection list \<Rightarrow> PublishingPlan"

text \<open>
  Modelled from the spec: minutes clamped to the supported bound, keywords normalized,
  the tone defaulted when it is not in the tone set, and topic, audience and call to
  action replaced by a placeholder when blank.
\<close>

definition orPlaceholder :: "jsstring \<Rightarrow> jsstring \<Rightarrow> jsstring" where
  "orPlaceholder placeholder text = (if String_trim text = [] then placeholder else text)"

definition normalizeBrief :: "Heuristics \<Rightarrow> int Brief \<Rightarrow> int Brief" where
  "normalizeBrief h raw =
     \<lparr> brief_topic = orPlaceholder (placeholderTopic h) (brief_topic raw),
       brief_minutes = max minMinutes (min maxMinutes (brief_minutes raw)),
       brief_targetAudience = orPlaceholder (placeholderAudience h) (brief_targetAudience raw),
       brief_tone =
         (if brief_tone raw \<in> set (toneSet h) then brief_tone raw else defaultTone h),
       brief_keywords = normalizeKeywords (brief_keywords raw),
       brief_callToAction =
         orPlaceholder (placeholderCallToAction h) (brief_callToAction raw) \<rparr>"

subsection \<open>Outline allocator (design 4.4)\<close>

text \<open>
  Modelled from the spec: largest-remainder rounding of the runtime \<open>m\<close> over the weights \<open>ws\<close>: every
  archetype gets the whole minutes of its share \<open>m * w / sum ws\<close>; the minutes
  still missing go, one each, to the archetypes with the largest remainders, the
  earlier archetype first among equal remainders.
\<close>

definition baseMinutes :: "int \<Rightarrow> int list \<Rightarrow> int list" where
  "baseMinutes m ws = map (\<lambda>w. (m * w) div sum_list ws) ws"

definition remainders :: "int \<Rightarrow> int list \<Rightarrow> int list" where
  "remainders m ws = map (\<lambda>w. (m * w) mod sum_list ws) ws"

definition bonusIndices :: "int \<Rightarrow> int list \<Rightarrow> nat list" where
  "bonusIndices m ws =
     take (nat (m - sum_list (baseMinutes m ws)))
          (sort_key (\<lambda>i. - (remainders m ws ! i)) [0..<length ws])"

definition largestRemainder :: "int \<Rightarrow> int list \<Rightarrow> int list" where
  "largestRemainder m ws =
     map (\<lambda>i. baseMinutes m ws ! i + (if i \<in> set (bonusIndices m ws) then 1 else 0))
         [0..<length ws]"

text \<open>
  Modelled from the spec: the lowest-weighted archetype is dropped, the later one among
  equal weights, while the rounding leaves a section below the floor of one minute and
  more than one archetype is left.
\<close>

fun removeFirstWhere :: "('a \<Rightarrow> bool) \<Rightarrow> 'a list \<Rightarrow> 'a list" where
  "removeFirstWhere P [] = []"
| "removeFirstWhere P (x # xs) = (if P x then xs else x # removeFirstWhere P xs)"

definition dropLowestWeighted :: "Archetype list \<Rightarrow> Archetype list" where
  "dropLowestWeighted archs =
     rev (removeFirstWhere (\<lambda>a. arch_weight a = min_list (map arch_weight archs)) (rev archs))"

lemma removeFirstWhere_length:
  "\<exists>x \<in> set xs. P x \<Longrightarrow> Suc (length (removeFirstWhere P xs)) = length xs"
  by (induction xs) auto

lemma removeFirstWhere_subset: "set (removeFirstWhere P xs) \<subseteq> set xs"
  by (induction xs) auto

lemma min_list_member: "xs \<noteq> [] \<Longrightarrow> min_list xs \<in> set (xs :: int list)"
  by (metis List.finite_set Min_in min_list_Min set_empty)

lemma removeLowest_length:
  assumes "w \<in> set (map arch_weight archs)"
  shows "Suc (length (rev (removeFirstWhere (\<lambda>a. arch_weight a = w) (rev archs)))) = length archs"
proof -
  from assms have "\<exists>a \<in> set (rev archs). arch_weight a = w" by auto
  then have "Suc (length (removeFirstWhere (\<lambda>a. arch_weight a = w) (rev archs))) = length (rev archs)"
    by (rule removeFirstWhere_length)
  then show ?thesis by simp
qed

lemma dropLowestWeighted_length:
  assumes "archs \<noteq> []"
  shows "Suc (length (dropLowestWeighted archs)) = length archs"
proof -
  have "map arch_weight archs \<noteq> []" using assms by simp
  then have "min_list (map arch_weight archs) \<in> set (map arch_weight archs)"
    by (rule min_list_member)
  then show ?thesis
    unfolding dropLowestWeighted_def by (rule removeLowest_length)
qed

lemma dropLowestWeighted_shorter:
  "archs \<noteq> [] \<Longrightarrow> length (dropLowestWeighted archs) < length archs"
  using dropLowestWeighted_length [of archs] by linarith

text \<open>
  Modelled from the spec: the allocation of the runtime to the archetypes that remain,
  and the outline sections built from it.
\<close>

function allocate :: "int \<Rightarrow> Archetype list \<Rightarrow> (Archetype \<times> int) list" where
  "allocate m archs =
     (let durations = largestRemainder m (map arch_weight archs)
      in if length archs \<le> 1 \<or> list_all (\<lambda>d. 1 \<le> d) durations
         then zip archs durations
         else allocate m (dropLowestWeighted archs))"
  by pat_completeness auto
termination
proof (relation "measure (\<lambda>(m, archs). length archs)")
  show "wf (measure (\<lambda>(m, archs). length archs))" by simp
next
  fix m :: int and archs :: "Archetype list" and durations :: "int list"
  assume "\<not> (length archs \<le> 1 \<or> list_all (\<lambda>d. 1 \<le> d) durations)"
  then have "archs \<noteq> []" by auto
  then have "length (dropLowestWeighted archs) < length archs"
    by (rule dropLowestWeighted_shorter)
  then show "((m, dropLowestWeighted archs), (m, archs)) \<in> measure (\<lambda>(m, archs). length archs)"
    by simp
qed

declare allocate.simps [simp del]

definition allocateOutline :: "Heuristics \<Rightarrow> int Brief \<Rightarrow> int OutlineSection list" where
  "allocateOutline h brief =
     map (\<lambda>(a, minutes).
            \<lparr> title = arch_title a,
              purpose = arch_purpose a,
              talkingPoints = talkingPointsFor h brief a,
              estimatedDuration = minutes \<rparr>)
         (allocate (brief_minutes brief) (archetypesFor h brief))"

subsection \<open>Script composer (design 4.5)\<close>

text \<open>
  Modelled from the spec: one script section for each outline section, in order, under
  the section's title; the engagement hook of the last section differs from the others.
\<close>

definition composeScript ::
    "Heuristics \<Rightarrow> int Brief \<Rightarrow> int OutlineSection list \<Rightarrow> ScriptSection list" where
  "composeScript h brief sections =
     map (\<lambda>(index, section).
            \<lparr> script_title = title section,
              voiceover = voiceoverFor h brief section,
              visualPrompts = visualPromptsFor h brief section,
              engagementHook = engagementHookFor h brief (Suc index = length sections) section \<rparr>)
         (enumerate 0 sections)"

subsection \<open>Chapter markers (design 4.6)\<close>

text \<open>
  Modelled from the spec: one marker for each outline section at the cumulative start
  of that section, in minutes and seconds, labelled with the section's title.
\<close>

fun cumulativeStarts :: "int \<Rightarrow> int list \<Rightarrow> int list" where
  "cumulativeStarts start [] = []"
| "cumulativeStarts start (d # ds) = start # cumulativeStarts (start + d) ds"

definition formatTimestamp :: "int \<Rightarrow> jsstring" where
  "formatTimestamp minutes = natToString (nat minutes) @ utf16 '':00''"

definition chapterMarkersOf :: "int OutlineSection list \<Rightarrow> ChapterMarker list" where
  "chapterMarkersOf sections =
     map (\<lambda>(start, section). \<lparr> timestamp = formatTimestamp start, label = title section \<rparr>)
         (zip (cumulativeStarts 0 (map estimatedDuration sections)) sections)"

text \<open>Reading a timestamp \<^verbatim>\<open>m:ss\<close> back as a number of seconds, to compare markers.\<close>

definition digitValue :: "code_unit \<Rightarrow> nat option" where
  "digitValue c = (if 48 \<le> unat c \<and> unat c \<le> 57 then Some (unat c - 48) else None)"

fun parseDigits :: "nat \<Rightarrow> jsstring \<Rightarrow> nat option" where
  "parseDigits acc [] = Some acc"
| "parseDigits acc (c # cs) =
     (case digitValue c of None \<Rightarrow> None | Some d \<Rightarrow> parseDigits (10 * acc + d) cs)"

definition parseNat :: "jsstring \<Rightarrow> nat option" where
  "parseNat s = (if s = [] then None else parseDigits 0 s)"

definition timestampSeconds :: "jsstring \<Rightarrow> nat option" where
  "timestampSeconds ts =
     (case parseNat (takeWhile (\<lambda>c. c \<noteq> 0x3A) ts) of
        None \<Rightarrow> None
      | Some m \<Rightarrow>
          (case parseNat (drop 1 (dropWhile (\<lambda>c. c \<noteq> 0x3A) ts)) of
             None \<Rightarrow> None
           | Some s \<Rightarrow> Some (60 * m + s)))"

subsection \<open>Blueprint assembler (design 4.10)\<close>

text \<open>
  Modelled from the spec: \<^verbatim>\<open>generateVideoBlueprint\<close>, the composition of the components
  above in dependency order on the normalized brief.
\<close>

definition generateVideoBlueprint :: "Heuristics \<Rightarrow> int Brief \<Rightarrow> int VideoBlueprint" where
  "generateVideoBlueprint h raw =
     (let brief = normalizeBrief h raw;
          sections = allocateOutline h brief
      in \<lparr> topic = brief_topic brief,
           videoLengthMinutes = brief_minutes brief,
           targetAudience = brief_targetAudience brief,
           tone = brief_tone brief,
           narrativeAngle = narrativeAngleFor h brief,
           primaryKeywords = brief_keywords brief,
           callToAction = brief_callToAction brief,
           nicheAnalysis = nicheAnalysisFor h brief,
           outline = sections,
           script = composeScript h brief sections,
           seo =
             \<lparr> videoTitle = videoTitleFor h brief,
               description = descriptionFor h brief,
               keywordTags = keywordTagsFor h brief,
               hashtags = hashtagsFor h brief,
               chapterMarkers = chapterMarkersOf sections \<rparr>,
           production = productionFor h brief sections,
           upload = uploadFor h brief sections,
           publishing = publishingFor h brief sections \<rparr>)"

text \<open>An archetype list the allocator can work on: not empty, every weight positive.\<close>

definition usableArchetypes :: "Archetype list \<Rightarrow> bool" where
  "usableArchetypes archs \<longleftrightarrow> archs \<noteq> [] \<and> list_all (\<lambda>a. 0 < arch_weight a) archs"


section \<open>Sample data\<close>

text \<open>
  A small blueprint, a brief (the example scenario of the design) and a set of
  heuristics to evaluate the definitions on.
\<close>

definition sampleBlueprint :: "int VideoBlueprint" where
  "sampleBlueprint =
     \<lparr> topic = utf16 ''tea'',
       videoLengthMinutes = 5,
       targetAudience = utf16 ''all'',
       tone = utf16 ''Educational'',
       narrativeAngle = utf16 ''calm'',
       primaryKeywords = [utf16 ''oolong''],
       callToAction = utf16 ''Subscribe'',
       nicheAnalysis =
         \<lparr> positioningStatement = utf16 ''Tea first'',
           trendSignals = [\<lparr> headline = utf16 ''Matcha'', rationale = utf16 ''rising'' \<rparr>],
           audienceQuestions = [utf16 ''Which kettle?''],
           competitorWatch = [utf16 ''Leaf & Stem''] \<rparr>,
       outline =
         [\<lparr> title = utf16 ''Hook'', purpose = utf16 ''grab'',
            talkingPoints = [utf16 ''steam''], estimatedDuration = 2 \<rparr>,
          \<lparr> title = utf16 ''Core'', purpose = utf16 ''teach'',
            talkingPoints = [utf16 ''leaves''], estimatedDuration = 3 \<rparr>],
       script =
         [\<lparr> script_title = utf16 ''Hook'', voiceover = utf16 ''Hello.'',
            visualPrompts = [utf16 ''cup'', utf16 ''pot''], engagementHook = utf16 ''Stay.'' \<rparr>,
          \<lparr> script_title = utf16 ''Core'', voiceover = utf16 ''Brew.'',
            visualPrompts = [utf16 ''pour''], engagementHook = utf16 ''Like.'' \<rparr>],
       seo =
         \<lparr> videoTitle = utf16 ''Tea in 5'',
           description = utf16 ''About tea.'',
           keywordTags = [utf16 ''tea'', utf16 ''brew''],
           hashtags = [utf16 ''#GreenTea''],
           chapterMarkers =
             [\<lparr> timestamp = utf16 ''0:00'', label = utf16 ''Hook'' \<rparr>,
              \<lparr> timestamp = utf16 ''2:00'', label = utf16 ''Core'' \<rparr>] \<rparr>,
       production =
         \<lparr> timelineDays =
             \<lparr> days_preProduction = 1, days_production = 7, days_postProduction = 1 \<rparr>,
           checklist =
             [\<lparr> task_id = utf16 ''t1'', task_title = utf16 ''Lock'',
                task_description = utf16 ''Freeze wording'', phase = utf16 ''pre-production'',
                owner = utf16 ''Writer'', dueAfterHours = 48 \<rparr>],
           assetRequests = [\<lparr> asset_label = utf16 ''B-roll'', asset_notes = utf16 ''4K kettle shots'' \<rparr>] \<rparr>,
       upload =
         \<lparr> optimizedTitle = utf16 ''Tea now'',
           optimizedDescription = utf16 ''Watch and sip!'',
           uploadTags = [utf16 ''jasmine''],
           thumbnailConcept = utf16 ''mug'',
           endScreenIdeas = [utf16 ''Next video''],
           playlistTargets = [utf16 ''Quiet mornings''] \<rparr>,
       publishing =
         \<lparr> bestPublishWindows = [utf16 ''Tue 9am''],
           communityPrompts = [utf16 ''Share your cup''],
           crossPromotion = [utf16 ''Newsletter''] \<rparr> \<rparr>"


definition sampleBrief :: "int Brief" where
  "sampleBrief =
     \<lparr> brief_topic = utf16 ''cold brew coffee'',
       brief_minutes = 10,
       brief_targetAudience = utf16 ''home baristas'',
       brief_tone = utf16 ''Educational'',
       brief_keywords = [utf16 ''cold brew'', utf16 ''coffee''],
       brief_callToAction = utf16 ''Subscribe for more brewing guides'' \<rparr>"

definition sampleArchetypes :: "Archetype list" where
  "sampleArchetypes =
     [\<lparr> arch_title = utf16 ''Hook'', arch_purpose = utf16 ''Open the loop'', arch_weight = 15 \<rparr>,
      \<lparr> arch_title = utf16 ''Context'', arch_purpose = utf16 ''Frame the problem'', arch_weight = 20 \<rparr>,
      \<lparr> arch_title = utf16 ''Core teaching'', arch_purpose = utf16 ''Teach the method'', arch_weight = 35 \<rparr>,
      \<lparr> arch_title = utf16 ''Case study'', arch_purpose = utf16 ''Prove it'', arch_weight = 20 \<rparr>,
      \<lparr> arch_title = utf16 ''Recap'', arch_purpose = utf16 ''Close with the call to action'', arch_weight = 10 \<rparr>]"

definition sampleHeuristics :: Heuristics where
  "sampleHeuristics =
     \<lparr> toneSet = TONE_OPTIONS,
       defaultTone = utf16 ''Educational'',
       placeholderTopic = utf16 ''Untitled topic'',
       placeholderAudience = utf16 ''General audience'',
       placeholderCallToAction = utf16 ''Subscribe'',
       archetypesFor = (\<lambda>brief. sampleArchetypes),
       talkingPointsFor = (\<lambda>brief a. [arch_purpose a @ utf16 '': '' @ brief_topic brief]),
       narrativeAngleFor = (\<lambda>brief. utf16 ''A field guide to '' @ brief_topic brief),
       nicheAnalysisFor =
         (\<lambda>brief. \<lparr> positioningStatement = brief_topic brief, trendSignals = [],
                     audienceQuestions = [], competitorWatch = [] \<rparr>),
       voiceoverFor = (\<lambda>brief section. title section @ utf16 '': '' @ brief_topic brief),
       visualPromptsFor = (\<lambda>brief section. [purpose section]),
       engagementHookFor =
         (\<lambda>brief isLast section. if isLast then brief_callToAction brief else utf16 ''Stay tuned.''),
       videoTitleFor = (\<lambda>brief. brief_topic brief),
       descriptionFor = (\<lambda>brief. brief_callToAction brief),
       keywordTagsFor = (\<lambda>brief. brief_keywords brief),
       hashtagsFor = (\<lambda>brief. []),
       productionFor =
         (\<lambda>brief sections.
            \<lparr> timelineDays =
                \<lparr> days_preProduction = 1, days_production = 1, days_postProduction = 1 \<rparr>,
              checklist = [], assetRequests = [] \<rparr>),
       uploadFor =
         (\<lambda>brief sections.
            \<lparr> optimizedTitle = brief_topic brief, optimizedDescription = [],
              uploadTags = [], thumbnailConcept = [], endScreenIdeas = [],
              playlistTargets = [] \<rparr>),
       publishingFor =
         (\<lambda>brief sections.
            \<lparr> bestPublishWindows = [], communityPrompts = [], crossPromotion = [] \<rparr>) \<rparr>"


section \<open>Keyword splitting\<close>

lemma String_trim_segment:
  "\<exists>l r. s = l @ String_trim s @ r \<and> list_all isWhiteSpace l \<and> list_all isWhiteSpace r"
proof -
  let ?t = "dropWhile isWhiteSpace s"
  have a: "s = takeWhile isWhiteSpace s @ ?t" by simp
  have "?t = rev (dropWhile isWhiteSpace (rev ?t)) @ rev (takeWhile isWhiteSpace (rev ?t))"
    by (metis rev_append rev_rev_ident takeWhile_dropWhile_id)
  then have b: "?t = String_trim s @ rev (takeWhile isWhiteSpace (rev ?t))"
    by (simp only: String_trim_def)
  have c: "list_all isWhiteSpace (takeWhile isWhiteSpace s)"
    by (simp add: list_all_iff) (meson set_takeWhileD)
  have d: "list_all isWhiteSpace (rev (takeWhile isWhiteSpace (rev ?t)))"
    by (simp add: list_all_iff) (meson set_takeWhileD)
  from a b have "s = takeWhile isWhiteSpace s @ String_trim s @ rev (takeWhile isWhiteSpace (rev ?t))"
    by simp
  with c d show ?thesis by blast
qed

lemma concat_splice_head:
  "concat (splice ((a @ g) # gs) ws) = a @ concat (splice (g # gs) ws)"
  by (cases ws) simp_all

lemma splitScan_gaps:
  "\<exists>gaps. length gaps = Suc (length (filter (\<lambda>w. w \<noteq> []) (map String_trim (splitScan cur rest))))
     \<and> cur @ rest = concat (splice gaps (filter (\<lambda>w. w \<noteq> []) (map String_trim (splitScan cur rest))))"
proof (induction rest arbitrary: cur)
  case Nil
  show ?case
  proof (cases "String_trim cur = []")
    case True
    then show ?thesis by (intro exI [of _ "[cur]"]) simp
  next
    case False
    obtain l r where "cur = l @ String_trim cur @ r"
      using String_trim_segment by blast
    with False show ?thesis by (intro exI [of _ "[l, r]"]) simp
  qed
next
  case (Cons c cs)
  show ?case
  proof (cases "isSeparator c")
    case sep: True
    let ?K = "filter (\<lambda>w. w \<noteq> []) (map String_trim (splitScan [] cs))"
    from Cons.IH [of "[]"] obtain gaps where
      g: "length gaps = Suc (length ?K)" "cs = concat (splice gaps ?K)" by auto
    then obtain g0 gs where gaps: "gaps = g0 # gs" by (cases gaps) auto
    show ?thesis
    proof (cases "String_trim cur = []")
      case True
      have "cur @ c # cs = concat (splice (((cur @ [c]) @ g0) # gs) ?K)"
        using g(2) gaps by (simp only: concat_splice_head) simp
      moreover have "length (((cur @ [c]) @ g0) # gs) = Suc (length ?K)"
        using g(1) gaps by simp
      ultimately show ?thesis using sep True by (intro exI [of _ "((cur @ [c]) @ g0) # gs"]) simp
    next
      case False
      obtain l r where lr: "cur = l @ String_trim cur @ r"
        using String_trim_segment by blast
      have "concat (splice (l # ((r @ [c]) @ g0) # gs) (String_trim cur # ?K))
              = l @ String_trim cur @ concat (splice (((r @ [c]) @ g0) # gs) ?K)"
        by simp
      also have "\<dots> = l @ String_trim cur @ (r @ [c]) @ concat (splice (g0 # gs) ?K)"
        by (simp only: concat_splice_head)
      also have "\<dots> = cur @ c # cs"
        using lr g(2) gaps by simp
      finally have "cur @ c # cs = concat (splice (l # ((r @ [c]) @ g0) # gs) (String_trim cur # ?K))"
        by simp
      moreover have "length (l # ((r @ [c]) @ g0) # gs) = Suc (length (String_trim cur # ?K))"
        using g(1) gaps by simp
      ultimately show ?thesis using sep False
        by (intro exI [of _ "l # ((r @ [c]) @ g0) # gs"]) simp
    qed
  next
    case False
    with Cons.IH [of "cur @ [c]"] show ?thesis by simp
  qed
qed

text \<open>
  Claim C9. Every element of the list returned by \<^verbatim>\<open>splitKeywords\<close> is a non-empty
  string, and the elements appear in the order in which the phrases occur in the
  input: the list is a subsequence of the trimmed pieces of the input, and the input
  is the elements, in the order of the list, with a gap before, between and after them.
\<close>

theorem splitKeywords_nonempty_in_order:
  "(\<forall>word \<in> set (splitKeywords input). word \<noteq> []) \<and>
   subseq (splitKeywords input) (map String_trim (String_split input)) \<and>
   (\<exists>gaps. length gaps = Suc (length (splitKeywords input)) \<and>
           input = concat (splice gaps (splitKeywords input)))"
proof -
  have "\<forall>word \<in> set (splitKeywords input). word \<noteq> []"
    by (simp add: splitKeywords_def)
  moreover have "subseq (splitKeywords input) (map String_trim (String_split input))"
    by (simp add: splitKeywords_def)
  moreover have "\<exists>gaps. length gaps = Suc (length (splitKeywords input)) \<and>
           input = concat (splice gaps (splitKeywords input))"
    using splitScan_gaps [of "[]" input] by (simp add: splitKeywords_def String_split_def)
  ultimately show ?thesis by blast
qed

theorem splitKeywords_nonempty_in_order_witness:
  "splitKeywords (utf16 ''b ,, a'') = [utf16 ''b'', utf16 ''a''] \<and>
   (\<exists>word. word \<in> set (splitKeywords (utf16 ''b ,, a'')) \<and> word \<noteq> []) \<and>
   subseq (splitKeywords (utf16 ''b ,, a''))
          (map String_trim (String_split (utf16 ''b ,, a'')))"
proof -
  have v: "splitKeywords (utf16 ''b ,, a'') = [utf16 ''b'', utf16 ''a'']"
    by (simp add: splitKeywords_def String_split_def String_trim_def utf16_def
          isSeparator_def isWhiteSpace_def)
  have "utf16 ''b'' \<in> set (splitKeywords (utf16 ''b ,, a''))"
    by (simp only: v) simp
  with splitKeywords_nonempty_in_order [of "utf16 ''b ,, a''"] v
  show ?thesis by blast
qed

text \<open>
  The design's normalizer removes duplicate keywords; the page does not. For the
  keyword text \<^verbatim>\<open>ai, ai\<close> the brief handed to the engine holds the keyword twice.
\<close>

theorem keywords_handed_over_with_duplicates:
  "brief_keywords
     (handleGenerateBrief
        ((DEFAULT_FORM :: int FormState)\<lparr> form_keywords := utf16 ''ai, ai'' \<rparr>))
     = [utf16 ''ai'', utf16 ''ai''] \<and>
   normalizeKeywordText (utf16 ''ai, ai'') = [utf16 ''ai''] \<and>
   \<not> distinct
       (brief_keywords
          (handleGenerateBrief
             ((DEFAULT_FORM :: int FormState)\<lparr> form_keywords := utf16 ''ai, ai'' \<rparr>)))"
  by (simp add: handleGenerateBrief_def normalizeKeywordText_def keywordEntries_def
        splitKeywords_def String_split_def String_trim_def utf16_def
        isSeparator_def isWhiteSpace_def)

lemma splitScan_length:
  "length (splitScan cur rest) = Suc (length (filter isSeparator rest))"
  by (induction rest arbitrary: cur) auto

lemma splitScan_no_separator:
  "\<forall>c \<in> set cur. \<not> isSeparator c \<Longrightarrow>
     \<forall>p \<in> set (splitScan cur rest). \<forall>c \<in> set p. \<not> isSeparator c"
proof (induction rest arbitrary: cur)
  case Nil
  then show ?case by simp
next
  case (Cons a rest)
  show ?case
  proof (cases "isSeparator a")
    case True
    have "\<forall>p \<in> set (splitScan [] rest). \<forall>c \<in> set p. \<not> isSeparator c"
      by (rule Cons.IH) simp
    with True Cons.prems show ?thesis by simp
  next
    case False
    have "\<forall>p \<in> set (splitScan (cur @ [a]) rest). \<forall>c \<in> set p. \<not> isSeparator c"
      by (rule Cons.IH) (use False Cons.prems in simp)
    with False show ?thesis by simp
  qed
qed

lemma splitScan_concat:
  "concat (splitScan cur rest) = cur @ filter (\<lambda>c. \<not> isSeparator c) rest"
  by (induction rest arbitrary: cur) auto

lemma dedupe_of_distinct:
  "distinct xs \<Longrightarrow> set xs \<inter> set seen = {} \<Longrightarrow> dedupe seen xs = xs"
  by (induction xs arbitrary: seen) auto

lemma dedupe_distinct:
  "distinct (dedupe seen xs) \<and> set (dedupe seen xs) \<inter> set seen = {}"
proof (induction xs arbitrary: seen)
  case Nil
  show ?case by simp
next
  case (Cons x xs)
  show ?case
  proof (cases "x \<in> set seen")
    case True
    with Cons [of seen] show ?thesis by simp
  next
    case False
    with Cons [of "x # seen"] show ?thesis by auto
  qed
qed

text \<open>
  Claim C5, as amended. The keyword list handed to the engine is produced by splitting
  the raw text at every comma and newline (one piece more than there are separators,
  no piece holding a separator, the pieces together being the text without its
  separators), trimming each piece and dropping the pieces that become empty.
  Duplicates are not removed: a keyword is handed over as often as it is entered, and
  the list is the design's normalized list exactly when it has no duplicate.
\<close>

theorem keywords_handed_to_engine:
  "brief_keywords (handleGenerateBrief form)
     = filter (\<lambda>entry. entry \<noteq> []) (map String_trim (String_split (form_keywords form))) \<and>
   length (String_split (form_keywords form))
     = Suc (length (filter isSeparator (form_keywords form))) \<and>
   concat (String_split (form_keywords form))
     = filter (\<lambda>c. \<not> isSeparator c) (form_keywords form) \<and>
   (\<forall>piece \<in> set (String_split (form_keywords form)). \<forall>c \<in> set piece. \<not> isSeparator c) \<and>
   (\<forall>entry. entry \<noteq> [] \<longrightarrow>
      count_list (brief_keywords (handleGenerateBrief form)) entry
        = count_list (map String_trim (String_split (form_keywords form))) entry) \<and>
   (distinct (brief_keywords (handleGenerateBrief form)) \<longleftrightarrow>
      brief_keywords (handleGenerateBrief form) = normalizeKeywordText (form_keywords form))"
proof -
  let ?raw = "form_keywords form"
  let ?pieces = "map String_trim (String_split ?raw)"
  have a: "brief_keywords (handleGenerateBrief form) = filter (\<lambda>entry. entry \<noteq> []) ?pieces"
    by (simp add: handleGenerateBrief_def splitKeywords_def)
  have b: "length (String_split ?raw) = Suc (length (filter isSeparator ?raw))"
    by (simp add: String_split_def splitScan_length)
  have c: "concat (String_split ?raw) = filter (\<lambda>c. \<not> isSeparator c) ?raw"
    by (simp add: String_split_def splitScan_concat)
  have d: "\<forall>piece \<in> set (String_split ?raw). \<forall>c \<in> set piece. \<not> isSeparator c"
    unfolding String_split_def by (rule splitScan_no_separator) simp
  have e: "\<forall>entry. entry \<noteq> [] \<longrightarrow>
      count_list (brief_keywords (handleGenerateBrief form)) entry = count_list ?pieces entry"
  proof (intro allI impI)
    fix entry :: jsstring
    assume ne: "entry \<noteq> []"
    have "count_list (filter (\<lambda>e. e \<noteq> []) xs) entry = count_list xs entry" for xs
      using ne by (induction xs) auto
    with a show "count_list (brief_keywords (handleGenerateBrief form)) entry
                   = count_list ?pieces entry"
      by simp
  qed
  have n: "normalizeKeywordText ?raw = dedupe [] (brief_keywords (handleGenerateBrief form))"
    using a by (simp add: normalizeKeywordText_def keywordEntries_def)
  have f: "distinct (brief_keywords (handleGenerateBrief form)) \<longleftrightarrow>
      brief_keywords (handleGenerateBrief form) = normalizeKeywordText ?raw"
  proof
    assume "distinct (brief_keywords (handleGenerateBrief form))"
    then have "dedupe [] (brief_keywords (handleGenerateBrief form))
                 = brief_keywords (handleGenerateBrief form)"
      by (intro dedupe_of_distinct) simp_all
    with n show "brief_keywords (handleGenerateBrief form) = normalizeKeywordText ?raw"
      by simp
  next
    assume "brief_keywords (handleGenerateBrief form) = normalizeKeywordText ?raw"
    moreover have "distinct (normalizeKeywordText ?raw)"
      unfolding n using dedupe_distinct [of "[]"] by blast
    ultimately show "distinct (brief_keywords (handleGenerateBrief form))"
      by simp
  qed
  from a b c d e f show ?thesis by blast
qed

theorem keywords_handed_to_engine_witness:
  "brief_keywords (handleGenerateBrief (DEFAULT_FORM :: int FormState))
     = [utf16 ''design automation'', utf16 ''ai design workflow'', utf16 ''figma systems''] \<and>
   distinct (brief_keywords (handleGenerateBrief (DEFAULT_FORM :: int FormState))) \<and>
   brief_keywords (handleGenerateBrief (DEFAULT_FORM :: int FormState))
     = normalizeKeywordText (form_keywords (DEFAULT_FORM :: int FormState)) \<and>
   count_list (brief_keywords (handleGenerateBrief (DEFAULT_FORM :: int FormState)))
       (utf16 ''figma systems'') = 1"
proof -
  have v: "brief_keywords (handleGenerateBrief (DEFAULT_FORM :: int FormState))
     = [utf16 ''design automation'', utf16 ''ai design workflow'', utf16 ''figma systems'']"
    by (simp add: handleGenerateBrief_def DEFAULT_FORM_def splitKeywords_def String_split_def
          String_trim_def utf16_def isSeparator_def isWhiteSpace_def)
  have d: "distinct (brief_keywords (handleGenerateBrief (DEFAULT_FORM :: int FormState)))"
    by (simp only: v) (simp add: utf16_def)
  have n: "count_list (brief_keywords (handleGenerateBrief (DEFAULT_FORM :: int FormState)))
       (utf16 ''figma systems'') = 1"
    by (simp only: v) (simp add: utf16_def)
  from keywords_handed_to_engine [of "DEFAULT_FORM :: int FormState"] v d n
  show ?thesis by blast
qed


section \<open>The minutes field and the clipboard\<close>

text \<open>
  Claim C8. When the value of the minutes field is the empty string, the form state's
  minutes become 9; otherwise they become the number the string converts to. The
  brief handed to \<^verbatim>\<open>generateVideoBlueprint\<close> carries the form state's minutes as they
  are: the page clamps nothing to the bound from 5 to 25, and changes no other field
  of the form.
\<close>

theorem minutes_field_passed_unclamped:
  "form_minutes (onMinutesChange StringToNumber targetValue prev)
     = (if targetValue = [] then 9 else StringToNumber targetValue) \<and>
   brief_minutes (handleGenerateBrief form) = form_minutes form \<and>
   brief_minutes (handleGenerateBrief (onMinutesChange StringToNumber targetValue prev))
     = (if targetValue = [] then 9 else StringToNumber targetValue) \<and>
   onMinutesChange StringToNumber targetValue prev
     = prev\<lparr> form_minutes := (if targetValue = [] then 9 else StringToNumber targetValue) \<rparr>"
  by (simp add: onMinutesChange_def handleGenerateBrief_def orElse_def)

theorem minutes_field_passed_unclamped_witness:
  "brief_minutes
     (handleGenerateBrief
        (onMinutesChange (\<lambda>s. if s = utf16 ''400'' then 400 else 0) (utf16 ''400'')
           (DEFAULT_FORM :: int FormState))) = 400 \<and>
   brief_minutes
     (handleGenerateBrief
        (onMinutesChange (\<lambda>s. if s = utf16 ''400'' then 400 else 0) []
           (DEFAULT_FORM :: int FormState))) = 9"
  using minutes_field_passed_unclamped
          [of "\<lambda>s. if s = utf16 ''400'' then 400 else 0" "utf16 ''400''"
              "DEFAULT_FORM :: int FormState" "DEFAULT_FORM :: int FormState",
           THEN conjunct2, THEN conjunct2, THEN conjunct1]
        minutes_field_passed_unclamped
          [of "\<lambda>s. if s = utf16 ''400'' then 400 else 0" "[]"
              "DEFAULT_FORM :: int FormState" "DEFAULT_FORM :: int FormState",
           THEN conjunct2, THEN conjunct2, THEN conjunct1]
  by (simp add: utf16_def)

text \<open>
  Claim C10. When \<^verbatim>\<open>navigator\<close> has no \<^verbatim>\<open>clipboard\<close>, \<^verbatim>\<open>copyToClipboard\<close> does not
  throw and does not attempt the write: it returns \<^verbatim>\<open>undefined\<close>.
\<close>

theorem copyToClipboard_without_clipboard:
  "navigator globals = Some nav \<Longrightarrow> clipboard nav = None \<Longrightarrow>
     copyToClipboard globals text = Inr Undefined"
  by (simp add: copyToClipboard_def)

theorem copyToClipboard_without_clipboard_witness:
  "copyToClipboard
     (\<lparr> navigator = Some \<lparr> clipboard = None \<rparr> \<rparr> :: unit Globals) (utf16 ''text'')
     = Inr Undefined"
  by (rule copyToClipboard_without_clipboard [of _ "\<lparr> clipboard = None \<rparr>"]) simp_all


section \<open>The plain-text export\<close>

lemma exportLines_length:
  "length (exportLines numberToString bp) =
     38 + length (trendSignals (nicheAnalysis bp)) + length (outline bp)
        + length (checklist (production bp)) + length (bestPublishWindows (publishing bp))
        + length (communityPrompts (publishing bp)) + length (crossPromotion (publishing bp))"
  by (simp add: exportLines_def)

lemma join_Cons: "ys \<noteq> [] \<Longrightarrow> join sep (x # ys) = x @ sep @ join sep ys"
  by (cases ys) simp_all

lemma join_lines_after:
  "join sep (x # xs) = x @ concat (map (\<lambda>l. sep @ l) xs)"
  by (induction xs arbitrary: x) (simp_all add: join_Cons)

lemma natToString_digit: "n < 10 \<Longrightarrow> natToString n = [of_nat (48 + n)]"
  by (subst natToString.simps) simp

text \<open>
  Claim C6. The exported text itself is the concatenation, in this fixed order, of:
  the header; audience, tone and length; the narrative angle; the niche positioning;
  the trend signals; the outline; the script; the SEO title, description and tags;
  the production checklist; the upload package; and the publishing plan with its
  community prompts and cross-promotion ideas. Every heading is followed by its
  entries, each on a line of its own, and the sections are separated by one empty
  line.
\<close>

theorem formatBlueprintText_section_order:
  fixes bp :: "'n VideoBlueprint" and numberToString :: "'n \<Rightarrow> jsstring"
  defines "trendLines \<equiv>
             map (\<lambda>signal. utf16 ''- '' @ headline signal @ utf16 '': '' @ rationale signal)
                 (trendSignals (nicheAnalysis bp))"
      and "outlineLines \<equiv>
             map (\<lambda>section. utf16 ''- '' @ title section @ utf16 '' ('' @
                    numberToString (estimatedDuration section) @ utf16 '' min): '' @
                    purpose section)
                 (outline bp)"
      and "checklistLines \<equiv>
             map (\<lambda>task. utf16 ''- [ ] '' @ task_title task @ utf16 '' ('' @ phase task @
                    utf16 '', owner '' @ owner task @ utf16 '')'')
                 (checklist (production bp))"
      and "windowLines \<equiv> map (\<lambda>window. utf16 ''- '' @ window) (bestPublishWindows (publishing bp))"
      and "promptLines \<equiv> map (\<lambda>prompt. utf16 ''- '' @ prompt) (communityPrompts (publishing bp))"
      and "ideaLines \<equiv> map (\<lambda>idea. utf16 ''- '' @ idea) (crossPromotion (publishing bp))"
  shows
  "formatBlueprintText numberToString bp =
     utf16 ''YouTube Blueprint '' @ [0x2014] @ utf16 '' '' @ topic bp @ nl @
     nl @
     utf16 ''Audience: '' @ targetAudience bp @ nl @
     utf16 ''Tone: '' @ tone bp @ nl @
     utf16 ''Length: '' @ numberToString (videoLengthMinutes bp) @ utf16 '' minutes'' @ nl @
     utf16 ''Narrative Angle: '' @ narrativeAngle bp @ nl @
     nl @
     utf16 ''Niche Positioning:'' @ nl @
     positioningStatement (nicheAnalysis bp) @ nl @
     nl @
     utf16 ''Trend Signals:'' @ concat (map (\<lambda>line. nl @ line) trendLines) @ nl @
     nl @
     utf16 ''Outline:'' @ concat (map (\<lambda>line. nl @ line) outlineLines) @ nl @
     nl @
     utf16 ''Script:'' @ nl @
     scriptSections bp @ nl @
     nl @
     utf16 ''SEO Title:'' @ nl @
     videoTitle (seo bp) @ nl @
     nl @
     utf16 ''SEO Description:'' @ nl @
     description (seo bp) @ nl @
     nl @
     utf16 ''Tags:'' @ nl @
     join (utf16 '', '') (keywordTags (seo bp)) @ nl @
     nl @
     utf16 ''Production Checklist:'' @ concat (map (\<lambda>line. nl @ line) checklistLines) @ nl @
     nl @
     utf16 ''Upload Package:'' @ nl @
     utf16 ''Title: '' @ optimizedTitle (upload bp) @ nl @
     utf16 ''Thumbnail Concept: '' @ thumbnailConcept (upload bp) @ nl @
     utf16 ''Call To Action: '' @ callToAction bp @ nl @
     nl @
     utf16 ''Publishing Plan:'' @ concat (map (\<lambda>line. nl @ line) windowLines) @ nl @
     nl @
     utf16 ''Community Prompts:'' @ concat (map (\<lambda>line. nl @ line) promptLines) @ nl @
     nl @
     utf16 ''Cross Promotion:'' @ concat (map (\<lambda>line. nl @ line) ideaLines)"
  unfolding trendLines_def outlineLines_def checklistLines_def windowLines_def
    promptLines_def ideaLines_def formatBlueprintText_def exportLines_def
  by (simp add: join_lines_after del: join.simps)

text \<open>The export of the sample blueprint, line by line.\<close>

theorem formatBlueprintText_section_order_witness:
  "formatBlueprintText intToString sampleBlueprint =
     utf16 ''YouTube Blueprint '' @ [0x2014] @ utf16 '' tea'' @ nl @
     nl @
     utf16 ''Audience: all'' @ nl @
     utf16 ''Tone: Educational'' @ nl @
     utf16 ''Length: 5 minutes'' @ nl @
     utf16 ''Narrative Angle: calm'' @ nl @
     nl @
     utf16 ''Niche Positioning:'' @ nl @
     utf16 ''Tea first'' @ nl @
     nl @
     utf16 ''Trend Signals:'' @ nl @
     utf16 ''- Matcha: rising'' @ nl @
     nl @
     utf16 ''Outline:'' @ nl @
     utf16 ''- Hook (2 min): grab'' @ nl @
     utf16 ''- Core (3 min): teach'' @ nl @
     nl @
     utf16 ''Script:'' @ nl @
     utf16 ''Section 1: Hook'' @ nl @
     utf16 ''Hello.'' @ nl @
     nl @
     utf16 ''Visual Prompts:'' @ nl @
     utf16 ''- cup'' @ nl @
     utf16 ''- pot'' @ nl @
     utf16 ''Engagement: Stay.'' @ nl @
     nl @
     utf16 ''Section 2: Core'' @ nl @
     utf16 ''Brew.'' @ nl @
     nl @
     utf16 ''Visual Prompts:'' @ nl @
     utf16 ''- pour'' @ nl @
     utf16 ''Engagement: Like.'' @ nl @
     nl @
     nl @
     utf16 ''SEO Title:'' @ nl @
     utf16 ''Tea in 5'' @ nl @
     nl @
     utf16 ''SEO Description:'' @ nl @
     utf16 ''About tea.'' @ nl @
     nl @
     utf16 ''Tags:'' @ nl @
     utf16 ''tea, brew'' @ nl @
     nl @
     utf16 ''Production Checklist:'' @ nl @
     utf16 ''- [ ] Lock (pre-production, owner Writer)'' @ nl @
     nl @
     utf16 ''Upload Package:'' @ nl @
     utf16 ''Title: Tea now'' @ nl @
     utf16 ''Thumbnail Concept: mug'' @ nl @
     utf16 ''Call To Action: Subscribe'' @ nl @
     nl @
     utf16 ''Publishing Plan:'' @ nl @
     utf16 ''- Tue 9am'' @ nl @
     nl @
     utf16 ''Community Prompts:'' @ nl @
     utf16 ''- Share your cup'' @ nl @
     nl @
     utf16 ''Cross Promotion:'' @ nl @
     utf16 ''- Newsletter''"
  unfolding formatBlueprintText_section_order [of intToString sampleBlueprint]
  by (simp add: sampleBlueprint_def scriptSections_def scriptSectionText_def intToString_def
        natToString_digit utf16_def nl_def)

lemma sublist_trans: "sublist xs ys \<Longrightarrow> sublist ys zs \<Longrightarrow> sublist xs zs"
  unfolding sublist_def by (metis append.assoc)

lemma sublist_self: "sublist x x"
  using sublist_appendI [of x "[]" "[]"] by simp

lemma sublist_skip: "sublist x zs \<Longrightarrow> sublist x (ys @ zs)"
  unfolding sublist_def by (metis append.assoc)

lemma sublist_join: "x \<in> set xs \<Longrightarrow> sublist x (join sep xs)"
proof (induction sep xs rule: join.induct)
  case (1 sep)
  then show ?case by simp
next
  case (2 sep y)
  then show ?case by simp
next
  case (3 sep y z zs)
  show ?case
  proof (cases "x = y")
    case True
    then show ?thesis by simp
  next
    case False
    with 3 have "sublist x (join sep (z # zs))" by simp
    then have "sublist x (sep @ join sep (z # zs))" by (rule sublist_skip)
    then have "sublist x (y @ sep @ join sep (z # zs))" by (rule sublist_skip)
    then show ?thesis by simp
  qed
qed

lemma part_of_line:
  assumes "l \<in> set (exportLines N bp)" and "sublist x l"
  shows "sublist x (formatBlueprintText N bp)"
proof -
  have "sublist l (formatBlueprintText N bp)"
    using assms(1) by (simp add: formatBlueprintText_def sublist_join)
  with assms(2) show ?thesis by (rule sublist_trans)
qed

lemma header_fields:
  "sublist (topic bp) (formatBlueprintText N bp)"
  "sublist (targetAudience bp) (formatBlueprintText N bp)"
  "sublist (tone bp) (formatBlueprintText N bp)"
  "sublist (N (videoLengthMinutes bp)) (formatBlueprintText N bp)"
  "sublist (narrativeAngle bp) (formatBlueprintText N bp)"
  "sublist (positioningStatement (nicheAnalysis bp)) (formatBlueprintText N bp)"
proof -
  show "sublist (topic bp) (formatBlueprintText N bp)"
    by (rule part_of_line [where l = "utf16 ''YouTube Blueprint '' @ [0x2014] @ utf16 '' '' @ topic bp"])
       (simp add: exportLines_def, (rule sublist_append_rightI | rule sublist_self | rule sublist_skip)+)
  show "sublist (targetAudience bp) (formatBlueprintText N bp)"
    by (rule part_of_line [where l = "utf16 ''Audience: '' @ targetAudience bp"])
       (simp add: exportLines_def, (rule sublist_append_rightI | rule sublist_self | rule sublist_skip)+)
  show "sublist (tone bp) (formatBlueprintText N bp)"
    by (rule part_of_line [where l = "utf16 ''Tone: '' @ tone bp"])
       (simp add: exportLines_def, (rule sublist_append_rightI | rule sublist_self | rule sublist_skip)+)
  show "sublist (N (videoLengthMinutes bp)) (formatBlueprintText N bp)"
    by (rule part_of_line [where l = "utf16 ''Length: '' @ N (videoLengthMinutes bp) @ utf16 '' minutes''"])
       (simp add: exportLines_def, (rule sublist_append_rightI | rule sublist_self | rule sublist_skip)+)
  show "sublist (narrativeAngle bp) (formatBlueprintText N bp)"
    by (rule part_of_line [where l = "utf16 ''Narrative Angle: '' @ narrativeAngle bp"])
       (simp add: exportLines_def, (rule sublist_append_rightI | rule sublist_self | rule sublist_skip)+)
  show "sublist (positioningStatement (nicheAnalysis bp)) (formatBlueprintText N bp)"
    by (rule part_of_line [where l = "positioningStatement (nicheAnalysis bp)"])
       (simp add: exportLines_def, rule sublist_self)
qed

lemma seo_upload_fields:
  "sublist (videoTitle (seo bp)) (formatBlueprintText N bp)"
  "sublist (description (seo bp)) (formatBlueprintText N bp)"
  "sublist (optimizedTitle (upload bp)) (formatBlueprintText N bp)"
  "sublist (thumbnailConcept (upload bp)) (formatBlueprintText N bp)"
  "sublist (callToAction bp) (formatBlueprintText N bp)"
proof -
  show "sublist (videoTitle (seo bp)) (formatBlueprintText N bp)"
    by (rule part_of_line [where l = "videoTitle (seo bp)"])
       (simp add: exportLines_def, rule sublist_self)
  show "sublist (description (seo bp)) (formatBlueprintText N bp)"
    by (rule part_of_line [where l = "description (seo bp)"])
       (simp add: exportLines_def, rule sublist_self)
  show "sublist (optimizedTitle (upload bp)) (formatBlueprintText N bp)"
    by (rule part_of_line [where l = "utf16 ''Title: '' @ optimizedTitle (upload bp)"])
       (simp add: exportLines_def, (rule sublist_append_rightI | rule sublist_self | rule sublist_skip)+)
  show "sublist (thumbnailConcept (upload bp)) (formatBlueprintText N bp)"
    by (rule part_of_line [where l = "utf16 ''Thumbnail Concept: '' @ thumbnailConcept (upload bp)"])
       (simp add: exportLines_def, (rule sublist_append_rightI | rule sublist_self | rule sublist_skip)+)
  show "sublist (callToAction bp) (formatBlueprintText N bp)"
    by (rule part_of_line [where l = "utf16 ''Call To Action: '' @ callToAction bp"])
       (simp add: exportLines_def, (rule sublist_append_rightI | rule sublist_self | rule sublist_skip)+)
qed

lemma trend_fields:
  assumes "signal \<in> set (trendSignals (nicheAnalysis bp))"
  shows "sublist (headline signal) (formatBlueprintText N bp)"
    and "sublist (rationale signal) (formatBlueprintText N bp)"
proof -
  let ?l = "utf16 ''- '' @ headline signal @ utf16 '': '' @ rationale signal"
  have l: "?l \<in> set (exportLines N bp)" using assms by (simp add: exportLines_def)
  show "sublist (headline signal) (formatBlueprintText N bp)"
    by (rule part_of_line [OF l]) (rule sublist_append_rightI | rule sublist_self | rule sublist_skip)+
  show "sublist (rationale signal) (formatBlueprintText N bp)"
    by (rule part_of_line [OF l]) (rule sublist_append_rightI | rule sublist_self | rule sublist_skip)+
qed

lemma outline_fields:
  assumes "section \<in> set (outline bp)"
  shows "sublist (title section) (formatBlueprintText N bp)"
    and "sublist (N (estimatedDuration section)) (formatBlueprintText N bp)"
    and "sublist (purpose section) (formatBlueprintText N bp)"
proof -
  let ?l = "utf16 ''- '' @ title section @ utf16 '' ('' @ N (estimatedDuration section) @
            utf16 '' min): '' @ purpose section"
  have l: "?l \<in> set (exportLines N bp)" using assms by (simp add: exportLines_def)
  show "sublist (title section) (formatBlueprintText N bp)"
    by (rule part_of_line [OF l]) (rule sublist_append_rightI | rule sublist_self | rule sublist_skip)+
  show "sublist (N (estimatedDuration section)) (formatBlueprintText N bp)"
    by (rule part_of_line [OF l]) (rule sublist_append_rightI | rule sublist_self | rule sublist_skip)+
  show "sublist (purpose section) (formatBlueprintText N bp)"
    by (rule part_of_line [OF l]) (rule sublist_append_rightI | rule sublist_self | rule sublist_skip)+
qed

lemma checklist_fields:
  assumes "task \<in> set (checklist (production bp))"
  shows "sublist (task_title task) (formatBlueprintText N bp)"
    and "sublist (phase task) (formatBlueprintText N bp)"
    and "sublist (owner task) (formatBlueprintText N bp)"
proof -
  let ?l = "utf16 ''- [ ] '' @ task_title task @ utf16 '' ('' @ phase task @
            utf16 '', owner '' @ owner task @ utf16 '')''"
  have l: "?l \<in> set (exportLines N bp)" using assms by (simp add: exportLines_def)
  show "sublist (task_title task) (formatBlueprintText N bp)"
    by (rule part_of_line [OF l]) (rule sublist_append_rightI | rule sublist_self | rule sublist_skip)+
  show "sublist (phase task) (formatBlueprintText N bp)"
    by (rule part_of_line [OF l]) (rule sublist_append_rightI | rule sublist_self | rule sublist_skip)+
  show "sublist (owner task) (formatBlueprintText N bp)"
    by (rule part_of_line [OF l]) (rule sublist_append_rightI | rule sublist_self | rule sublist_skip)+
qed

lemma tag_fields:
  assumes "tag \<in> set (keywordTags (seo bp))"
  shows "sublist tag (formatBlueprintText N bp)"
proof -
  have "join (utf16 '', '') (keywordTags (seo bp)) \<in> set (exportLines N bp)"
    by (simp add: exportLines_def)
  moreover have "sublist tag (join (utf16 '', '') (keywordTags (seo bp)))"
    using assms by (rule sublist_join)
  ultimately show ?thesis by (rule part_of_line)
qed

lemma publishing_fields:
  "window \<in> set (bestPublishWindows (publishing bp)) \<Longrightarrow> sublist window (formatBlueprintText N bp)"
  "prompt \<in> set (communityPrompts (publishing bp)) \<Longrightarrow> sublist prompt (formatBlueprintText N bp)"
  "idea \<in> set (crossPromotion (publishing bp)) \<Longrightarrow> sublist idea (formatBlueprintText N bp)"
proof -
  show "sublist window (formatBlueprintText N bp)"
    if "window \<in> set (bestPublishWindows (publishing bp))"
    by (rule part_of_line [where l = "utf16 ''- '' @ window"])
       (use that in \<open>simp add: exportLines_def\<close>, rule sublist_skip, rule sublist_self)
  show "sublist prompt (formatBlueprintText N bp)"
    if "prompt \<in> set (communityPrompts (publishing bp))"
    by (rule part_of_line [where l = "utf16 ''- '' @ prompt"])
       (use that in \<open>simp add: exportLines_def\<close>, rule sublist_skip, rule sublist_self)
  show "sublist idea (formatBlueprintText N bp)"
    if "idea \<in> set (crossPromotion (publishing bp))"
    by (rule part_of_line [where l = "utf16 ''- '' @ idea"])
       (use that in \<open>simp add: exportLines_def\<close>, rule sublist_skip, rule sublist_self)
qed

lemma script_block:
  assumes "section \<in> set (script bp)"
  shows "\<exists>i. sublist (scriptSectionText i section) (formatBlueprintText N bp)"
proof -
  from assms obtain i where i: "i < length (script bp)" "script bp ! i = section"
    by (auto simp: in_set_conv_nth)
  then have "(i, section) \<in> set (enumerate 0 (script bp))"
    by (simp add: in_set_enumerate_eq)
  then have "scriptSectionText i section
               \<in> set (map (\<lambda>(index, section). scriptSectionText index section)
                          (enumerate 0 (script bp)))"
    by force
  then have "sublist (scriptSectionText i section) (scriptSections bp)"
    by (simp only: scriptSections_def sublist_join)
  moreover have "scriptSections bp \<in> set (exportLines N bp)"
    by (simp add: exportLines_def)
  ultimately show ?thesis using part_of_line by blast
qed

lemma script_fields:
  assumes "section \<in> set (script bp)"
  shows "sublist (script_title section) (formatBlueprintText N bp)"
    and "sublist (voiceover section) (formatBlueprintText N bp)"
    and "sublist (engagementHook section) (formatBlueprintText N bp)"
    and "\<forall>prompt \<in> set (visualPrompts section). sublist prompt (formatBlueprintText N bp)"
proof -
  from script_block [OF assms] obtain i where
    b: "sublist (scriptSectionText i section) (formatBlueprintText N bp)" by blast
  have "sublist (script_title section) (scriptSectionText i section)"
    unfolding scriptSectionText_def
    by (rule sublist_append_rightI | rule sublist_self | rule sublist_skip)+
  then show "sublist (script_title section) (formatBlueprintText N bp)"
    using b by (rule sublist_trans)
  have "sublist (voiceover section) (scriptSectionText i section)"
    unfolding scriptSectionText_def
    by (rule sublist_append_rightI | rule sublist_self | rule sublist_skip)+
  then show "sublist (voiceover section) (formatBlueprintText N bp)"
    using b by (rule sublist_trans)
  have "sublist (engagementHook section) (scriptSectionText i section)"
    unfolding scriptSectionText_def
    by (rule sublist_append_rightI | rule sublist_self | rule sublist_skip)+
  then show "sublist (engagementHook section) (formatBlueprintText N bp)"
    using b by (rule sublist_trans)
  show "\<forall>prompt \<in> set (visualPrompts section). sublist prompt (formatBlueprintText N bp)"
  proof
    fix prompt assume "prompt \<in> set (visualPrompts section)"
    then have "sublist prompt (join (nl @ utf16 ''- '') (visualPrompts section))"
      by (rule sublist_join)
    moreover have "sublist (join (nl @ utf16 ''- '') (visualPrompts section))
                     (scriptSectionText i section)"
      unfolding scriptSectionText_def
      by (rule sublist_append_rightI | rule sublist_self | rule sublist_skip)+
    ultimately have "sublist prompt (scriptSectionText i section)" by (rule sublist_trans)
    then show "sublist prompt (formatBlueprintText N bp)" using b by (rule sublist_trans)
  qed
qed

lemma export_independent:
  "formatBlueprintText N
     (bp\<lparr> primaryKeywords := pk,
          nicheAnalysis := (nicheAnalysis bp)\<lparr> audienceQuestions := aq, competitorWatch := cw \<rparr>,
          outline := map (\<lambda>s. s\<lparr> talkingPoints := tp s \<rparr>) (outline bp),
          seo := (seo bp)\<lparr> hashtags := ht, chapterMarkers := cm \<rparr>,
          production := (production bp)\<lparr> timelineDays := td, assetRequests := ar,
             checklist := map (\<lambda>t. t\<lparr> task_id := ti t, task_description := tde t, dueAfterHours := du t \<rparr>) (checklist (production bp)) \<rparr>,
          upload := (upload bp)\<lparr> optimizedDescription := od, uploadTags := ut,
                                  endScreenIdeas := es, playlistTargets := pt \<rparr> \<rparr>)
   = formatBlueprintText N bp"
  by (simp add: formatBlueprintText_def exportLines_def scriptSections_def comp_def)


lemma sample_export_characters:
  "list_all (\<lambda>c. c \<notin> set (utf16 ''#0?&7K!jxQ'')) (formatBlueprintText intToString sampleBlueprint)"
  by code_simp

lemma not_sublist_by_character:
  "list_all (\<lambda>c. c \<notin> set markers) text \<Longrightarrow> c \<in> set x \<Longrightarrow> c \<in> set markers \<Longrightarrow> \<not> sublist x text"
  using set_mono_sublist by (fastforce simp: list_all_iff)

text \<open>
  The export of the sample blueprint holds none of its hashtags, chapter timestamps,
  audience questions, competitor names, timeline days, asset notes, upload
  description, upload tags, end-screen ideas and playlist targets.
\<close>

theorem export_omits_fields:
  "hashtags (seo sampleBlueprint) = [utf16 ''#GreenTea''] \<and>
   \<not> sublist (utf16 ''#GreenTea'') (formatBlueprintText intToString sampleBlueprint) \<and>
   map timestamp (chapterMarkers (seo sampleBlueprint)) = [utf16 ''0:00'', utf16 ''2:00''] \<and>
   \<not> sublist (utf16 ''2:00'') (formatBlueprintText intToString sampleBlueprint) \<and>
   audienceQuestions (nicheAnalysis sampleBlueprint) = [utf16 ''Which kettle?''] \<and>
   \<not> sublist (utf16 ''Which kettle?'') (formatBlueprintText intToString sampleBlueprint) \<and>
   competitorWatch (nicheAnalysis sampleBlueprint) = [utf16 ''Leaf & Stem''] \<and>
   \<not> sublist (utf16 ''Leaf & Stem'') (formatBlueprintText intToString sampleBlueprint) \<and>
   days_production (timelineDays (production sampleBlueprint)) = 7 \<and>
   \<not> sublist (intToString 7) (formatBlueprintText intToString sampleBlueprint) \<and>
   map asset_notes (assetRequests (production sampleBlueprint)) = [utf16 ''4K kettle shots''] \<and>
   \<not> sublist (utf16 ''4K kettle shots'') (formatBlueprintText intToString sampleBlueprint) \<and>
   optimizedDescription (upload sampleBlueprint) = utf16 ''Watch and sip!'' \<and>
   \<not> sublist (utf16 ''Watch and sip!'') (formatBlueprintText intToString sampleBlueprint) \<and>
   uploadTags (upload sampleBlueprint) = [utf16 ''jasmine''] \<and>
   \<not> sublist (utf16 ''jasmine'') (formatBlueprintText intToString sampleBlueprint) \<and>
   endScreenIdeas (upload sampleBlueprint) = [utf16 ''Next video''] \<and>
   \<not> sublist (utf16 ''Next video'') (formatBlueprintText intToString sampleBlueprint) \<and>
   playlistTargets (upload sampleBlueprint) = [utf16 ''Quiet mornings''] \<and>
   \<not> sublist (utf16 ''Quiet mornings'') (formatBlueprintText intToString sampleBlueprint)"
proof -
  note absent = not_sublist_by_character [OF sample_export_characters]
  have "\<not> sublist (utf16 ''#GreenTea'') (formatBlueprintText intToString sampleBlueprint)"
    by (rule absent [of "0x23"]) (simp_all add: utf16_def)
  moreover have "\<not> sublist (utf16 ''2:00'') (formatBlueprintText intToString sampleBlueprint)"
    by (rule absent [of "0x30"]) (simp_all add: utf16_def)
  moreover have "\<not> sublist (utf16 ''Which kettle?'') (formatBlueprintText intToString sampleBlueprint)"
    by (rule absent [of "0x3F"]) (simp_all add: utf16_def)
  moreover have "\<not> sublist (utf16 ''Leaf & Stem'') (formatBlueprintText intToString sampleBlueprint)"
    by (rule absent [of "0x26"]) (simp_all add: utf16_def)
  moreover have "\<not> sublist (intToString 7) (formatBlueprintText intToString sampleBlueprint)"
    by (rule absent [of "0x37"]) (simp_all add: utf16_def intToString_def natToString.simps [of 7])
  moreover have "\<not> sublist (utf16 ''4K kettle shots'') (formatBlueprintText intToString sampleBlueprint)"
    by (rule absent [of "0x4B"]) (simp_all add: utf16_def)
  moreover have "\<not> sublist (utf16 ''Watch and sip!'') (formatBlueprintText intToString sampleBlueprint)"
    by (rule absent [of "0x21"]) (simp_all add: utf16_def)
  moreover have "\<not> sublist (utf16 ''jasmine'') (formatBlueprintText intToString sampleBlueprint)"
    by (rule absent [of "0x6A"]) (simp_all add: utf16_def)
  moreover have "\<not> sublist (utf16 ''Next video'') (formatBlueprintText intToString sampleBlueprint)"
    by (rule absent [of "0x78"]) (simp_all add: utf16_def)
  moreover have "\<not> sublist (utf16 ''Quiet mornings'') (formatBlueprintText intToString sampleBlueprint)"
    by (rule absent [of "0x51"]) (simp_all add: utf16_def)
  ultimately show ?thesis by (simp add: sampleBlueprint_def)
qed


text \<open>
  Claim C7, as amended. The export serializes these fields of the blueprint, each
  occurring in the text as it is: topic, targetAudience, tone, videoLengthMinutes,
  narrativeAngle, callToAction, the positioning statement, every trend signal's
  headline and rationale, every outline section's title, estimatedDuration and
  purpose, every script section's title, voiceover, visual prompts and engagement
  hook, the SEO title, description and keyword tags, every checklist task's title,
  phase and owner, the upload title and thumbnail concept, and the publish windows,
  community prompts and cross-promotion ideas. The text does not depend on the other
  fields: primaryKeywords, talking points, hashtags, chapter markers, audience
  questions, competitor watch, timeline days, asset requests, a task's id,
  description and due hours, the upload description, upload tags, end-screen ideas
  and playlist targets.
\<close>

theorem formatBlueprintText_serialized_fields:
  fixes bp :: "'n VideoBlueprint" and numberToString :: "'n \<Rightarrow> jsstring"
  defines "out \<equiv> formatBlueprintText numberToString bp"
  shows
  "sublist (topic bp) out \<and>
   sublist (targetAudience bp) out \<and>
   sublist (tone bp) out \<and>
   sublist (numberToString (videoLengthMinutes bp)) out \<and>
   sublist (narrativeAngle bp) out \<and>
   sublist (callToAction bp) out \<and>
   sublist (positioningStatement (nicheAnalysis bp)) out \<and>
   (\<forall>signal \<in> set (trendSignals (nicheAnalysis bp)).
      sublist (headline signal) out \<and> sublist (rationale signal) out) \<and>
   (\<forall>section \<in> set (outline bp).
      sublist (title section) out \<and>
      sublist (numberToString (estimatedDuration section)) out \<and>
      sublist (purpose section) out) \<and>
   (\<forall>section \<in> set (script bp).
      sublist (script_title section) out \<and>
      sublist (voiceover section) out \<and>
      sublist (engagementHook section) out \<and>
      (\<forall>prompt \<in> set (visualPrompts section). sublist prompt out)) \<and>
   sublist (videoTitle (seo bp)) out \<and>
   sublist (description (seo bp)) out \<and>
   (\<forall>tag \<in> set (keywordTags (seo bp)). sublist tag out) \<and>
   (\<forall>task \<in> set (checklist (production bp)).
      sublist (task_title task) out \<and> sublist (phase task) out \<and> sublist (owner task) out) \<and>
   sublist (optimizedTitle (upload bp)) out \<and>
   sublist (thumbnailConcept (upload bp)) out \<and>
   (\<forall>window \<in> set (bestPublishWindows (publishing bp)). sublist window out) \<and>
   (\<forall>prompt \<in> set (communityPrompts (publishing bp)). sublist prompt out) \<and>
   (\<forall>idea \<in> set (crossPromotion (publishing bp)). sublist idea out) \<and>
   formatBlueprintText numberToString
     (bp\<lparr> primaryKeywords := pk,
          nicheAnalysis := (nicheAnalysis bp)\<lparr> audienceQuestions := aq, competitorWatch := cw \<rparr>,
          outline := map (\<lambda>section. section\<lparr> talkingPoints := tp section \<rparr>) (outline bp),
          seo := (seo bp)\<lparr> hashtags := ht, chapterMarkers := cm \<rparr>,
          production :=
            (production bp)\<lparr> timelineDays := td, assetRequests := ar,
               checklist :=
                 map (\<lambda>task. task\<lparr> task_id := ti task, task_description := tde task,
                                     dueAfterHours := du task \<rparr>)
                     (checklist (production bp)) \<rparr>,
          upload := (upload bp)\<lparr> optimizedDescription := od, uploadTags := ut,
                                  endScreenIdeas := es, playlistTargets := pt \<rparr> \<rparr>)
     = out"
  unfolding out_def
  by (intro conjI ballI;
      (rule header_fields seo_upload_fields export_independent
       | (rule trend_fields outline_fields checklist_fields script_fields(1-3), assumption)
       | (rule tag_fields publishing_fields, assumption)
       | (rule script_fields(4) [rule_format], assumption, assumption)))


theorem formatBlueprintText_serialized_fields_witness:
  "sublist (utf16 ''tea'') (formatBlueprintText intToString sampleBlueprint) \<and>
   sublist (utf16 ''Matcha'') (formatBlueprintText intToString sampleBlueprint) \<and>
   sublist (utf16 ''teach'') (formatBlueprintText intToString sampleBlueprint) \<and>
   sublist (utf16 ''pour'') (formatBlueprintText intToString sampleBlueprint) \<and>
   sublist (utf16 ''brew'') (formatBlueprintText intToString sampleBlueprint) \<and>
   sublist (utf16 ''Writer'') (formatBlueprintText intToString sampleBlueprint) \<and>
   sublist (utf16 ''Newsletter'') (formatBlueprintText intToString sampleBlueprint)"
proof -
  note fields =
    formatBlueprintText_serialized_fields
      [where bp = sampleBlueprint and numberToString = intToString
         and pk = "[]" and aq = "[]" and cw = "[]" and tp = "\<lambda>section. []" and ht = "[]"
         and cm = "[]" and td = "timelineDays (production sampleBlueprint)" and ar = "[]"
         and ti = task_id and tde = task_description and du = dueAfterHours
         and od = "[]" and ut = "[]" and es = "[]" and pt = "[]"]
  let ?signal = "\<lparr> headline = utf16 ''Matcha'', rationale = utf16 ''rising'' \<rparr>"
  let ?core = "\<lparr> title = utf16 ''Core'', purpose = utf16 ''teach'',
                 talkingPoints = [utf16 ''leaves''], estimatedDuration = 3::int \<rparr>"
  let ?brew = "\<lparr> script_title = utf16 ''Core'', voiceover = utf16 ''Brew.'',
                 visualPrompts = [utf16 ''pour''], engagementHook = utf16 ''Like.'' \<rparr>"
  let ?task = "\<lparr> task_id = utf16 ''t1'', task_title = utf16 ''Lock'',
                 task_description = utf16 ''Freeze wording'', phase = utf16 ''pre-production'',
                 owner = utf16 ''Writer'', dueAfterHours = 48::int \<rparr>"
  have a: "topic sampleBlueprint = utf16 ''tea''"
    by (simp add: sampleBlueprint_def)
  have b: "?signal \<in> set (trendSignals (nicheAnalysis sampleBlueprint))"
    by (simp add: sampleBlueprint_def)
  have c: "?core \<in> set (outline sampleBlueprint)"
    by (simp add: sampleBlueprint_def)
  have d: "?brew \<in> set (script sampleBlueprint)"
    by (simp add: sampleBlueprint_def)
  have e: "utf16 ''brew'' \<in> set (keywordTags (seo sampleBlueprint))"
    by (simp add: sampleBlueprint_def)
  have f: "?task \<in> set (checklist (production sampleBlueprint))"
    by (simp add: sampleBlueprint_def)
  have g: "utf16 ''Newsletter'' \<in> set (crossPromotion (publishing sampleBlueprint))"
    by (simp add: sampleBlueprint_def)
  have "sublist (topic sampleBlueprint) (formatBlueprintText intToString sampleBlueprint)"
    by (rule fields [THEN conjunct1])
  then have 1: "sublist (utf16 ''tea'') (formatBlueprintText intToString sampleBlueprint)"
    by (simp only: a)
  have "sublist (headline ?signal) (formatBlueprintText intToString sampleBlueprint)"
    using fields b by blast
  then have 2: "sublist (utf16 ''Matcha'') (formatBlueprintText intToString sampleBlueprint)"
    by simp
  have "sublist (purpose ?core) (formatBlueprintText intToString sampleBlueprint)"
    using fields c by blast
  then have 3: "sublist (utf16 ''teach'') (formatBlueprintText intToString sampleBlueprint)"
    by simp
  have "\<forall>prompt \<in> set (visualPrompts ?brew).
          sublist prompt (formatBlueprintText intToString sampleBlueprint)"
    using fields d by blast
  then have 4: "sublist (utf16 ''pour'') (formatBlueprintText intToString sampleBlueprint)"
    by simp
  have 5: "sublist (utf16 ''brew'') (formatBlueprintText intToString sampleBlueprint)"
    using fields e by blast
  have "sublist (owner ?task) (formatBlueprintText intToString sampleBlueprint)"
    using fields f by blast
  then have 6: "sublist (utf16 ''Writer'') (formatBlueprintText intToString sampleBlueprint)"
    by simp
  have 7: "sublist (utf16 ''Newsletter'') (formatBlueprintText intToString sampleBlueprint)"
    using fields g by blast
  from 1 2 3 4 5 6 7 show ?thesis by blast
qed



section \<open>The engine: outline, script and chapter markers\<close>

subsection \<open>Timestamps\<close>

lemma unat_digit:
  assumes "d < 10"
  shows "unat (of_nat (48 + d) :: code_unit) = 48 + d"
proof -
  have "unat (of_nat (48 + d) :: code_unit) = (48 + d) mod 2 ^ LENGTH(16)"
    by (rule unat_of_nat)
  with assms show ?thesis by simp
qed

lemma digitValue_of_digit:
  assumes "d < 10"
  shows "digitValue (of_nat (48 + d)) = Some d"
  unfolding digitValue_def unat_digit [OF assms] using assms by simp

lemma digit_not_colon:
  "digitValue c = Some d \<Longrightarrow> c \<noteq> 0x3A"
  by (auto simp: digitValue_def split: if_splits)

lemma parseDigits_append:
  "parseDigits acc (xs @ ys) =
     (case parseDigits acc xs of None \<Rightarrow> None | Some v \<Rightarrow> parseDigits v ys)"
  by (induction xs arbitrary: acc) (simp_all split: option.splits)

lemma parseDigits_natToString: "parseDigits 0 (natToString n) = Some n"
proof (induction n rule: natToString.induct)
  case (1 n)
  show ?case
  proof (cases "n < 10")
    case True
    then have "natToString n = [of_nat (48 + n)]"
      by (subst natToString.simps) simp
    moreover have "parseDigits 0 [of_nat (48 + n)] = Some n"
      unfolding parseDigits.simps digitValue_of_digit [OF True] by simp
    ultimately show ?thesis by (simp only:)
  next
    case False
    have d: "digitValue (of_nat (48 + n mod 10)) = Some (n mod 10)"
      by (rule digitValue_of_digit) simp
    have "natToString n = natToString (n div 10) @ [of_nat (48 + n mod 10)]"
      using False by (subst natToString.simps) simp
    then have "parseDigits 0 (natToString n)
                 = parseDigits (n div 10) [of_nat (48 + n mod 10)]"
      using 1 [OF False] by (simp add: parseDigits_append)
    also have "\<dots> = Some (10 * (n div 10) + n mod 10)"
      using d by simp
    finally show ?thesis by simp
  qed
qed

lemma natToString_digits:
  "\<forall>c \<in> set (natToString n). c \<noteq> 0x3A"
proof (induction n rule: natToString.induct)
  case (1 n)
  have last: "(of_nat (48 + n mod 10) :: code_unit) \<noteq> 0x3A"
    by (rule digit_not_colon [OF digitValue_of_digit]) simp
  show ?case
  proof (cases "n < 10")
    case True
    then have "natToString n = [of_nat (48 + n mod 10)]"
      by (subst natToString.simps) simp
    with last show ?thesis by simp
  next
    case False
    then have "natToString n = natToString (n div 10) @ [of_nat (48 + n mod 10)]"
      by (subst natToString.simps) simp
    with last 1 [OF False] show ?thesis by simp
  qed
qed

lemma natToString_nonempty: "natToString n \<noteq> []"
  by (subst natToString.simps) simp

lemma timestampSeconds_formatTimestamp:
  "timestampSeconds (formatTimestamp minutes) = Some (60 * nat minutes)"
proof -
  let ?ds = "natToString (nat minutes)"
  have tail: "utf16 '':00'' = [0x3A, 0x30, 0x30]" by (simp add: utf16_def)
  have tw: "takeWhile (\<lambda>c. c \<noteq> 0x3A) (?ds @ [0x3A, 0x30, 0x30]) = ?ds"
    using natToString_digits [of "nat minutes"] by (simp add: takeWhile_append2)
  have dw: "dropWhile (\<lambda>c. c \<noteq> 0x3A) (?ds @ [0x3A, 0x30, 0x30]) = [0x3A, 0x30, 0x30]"
    using natToString_digits [of "nat minutes"] by (simp add: dropWhile_append2)
  have m: "parseNat ?ds = Some (nat minutes)"
    by (simp add: parseNat_def natToString_nonempty parseDigits_natToString)
  have s: "parseNat [0x30, 0x30] = Some 0"
    by (simp add: parseNat_def digitValue_def)
  show ?thesis
    unfolding timestampSeconds_def formatTimestamp_def tail tw dw
    by (simp add: m s)
qed

lemma cumulativeStarts_length: "length (cumulativeStarts start ds) = length ds"
  by (induction ds arbitrary: start) simp_all

lemma cumulativeStarts_increasing:
  "\<forall>d \<in> set ds. 1 \<le> d \<Longrightarrow>
     sorted_wrt (<) (cumulativeStarts start ds) \<and> (\<forall>s \<in> set (cumulativeStarts start ds). start \<le> s)"
proof (induction ds arbitrary: start)
  case Nil
  then show ?case by simp
next
  case (Cons d ds)
  then have d: "1 \<le> d" and rest: "\<forall>d \<in> set ds. 1 \<le> d" by simp_all
  from Cons.IH [OF rest, of "start + d"] d show ?case by fastforce
qed

lemma foldl_durations:
  "foldl (\<lambda>acc section. acc + estimatedDuration section) (a::int) sections
     = a + sum_list (map estimatedDuration sections)"
  by (induction sections arbitrary: a) simp_all

subsection \<open>Largest-remainder rounding\<close>

lemma sum_list_indicator:
  assumes "distinct xs" and "set S \<subseteq> set xs" and "distinct S"
  shows "sum_list (map (\<lambda>i. if i \<in> set S then (1::int) else 0) xs) = int (length S)"
proof -
  have "sum_list (map (\<lambda>i. if i \<in> set S then (1::int) else 0) xs)
          = int (length (filter (\<lambda>i. i \<in> set S) xs))"
    by (induction xs) simp_all
  also have "length (filter (\<lambda>i. i \<in> set S) xs) = card ({i. i \<in> set S} \<inter> set xs)"
    using assms(1) by (rule distinct_length_filter)
  also have "{i. i \<in> set S} \<inter> set xs = set S" using assms(2) by auto
  also have "card (set S) = length S" using assms(3) by (rule distinct_card)
  finally show ?thesis .
qed

lemma sum_list_split_div_mod:
  fixes W :: int
  shows "sum_list (map (\<lambda>w. m * w) ws)
           = W * sum_list (map (\<lambda>w. (m * w) div W) ws) + sum_list (map (\<lambda>w. (m * w) mod W) ws)"
  by (induction ws) (simp_all add: algebra_simps)

lemma sum_list_scale: "sum_list (map (\<lambda>w. m * w) ws) = m * sum_list (ws :: int list)"
  by (induction ws) (simp_all add: algebra_simps)

lemma sum_list_mod_bounds:
  fixes W :: int
  assumes "0 < W"
  shows "0 \<le> sum_list (map (\<lambda>w. x w mod W) ws)
       \<and> sum_list (map (\<lambda>w. x w mod W) ws) \<le> int (length ws) * (W - 1)"
proof (induction ws)
  case Nil
  then show ?case by simp
next
  case (Cons a ws)
  have "0 \<le> x a mod W" "x a mod W \<le> W - 1" using assms by simp_all
  with Cons show ?case by (simp add: algebra_simps)
qed

lemma sum_list_positive:
  "ws \<noteq> [] \<Longrightarrow> \<forall>w \<in> set ws. 0 < w \<Longrightarrow> 0 < sum_list (ws :: int list)"
  by (induction ws) (auto simp: add_pos_nonneg sum_list_nonneg less_imp_le)

lemma leftover_bounds:
  assumes ne: "ws \<noteq> []" and pos: "\<forall>w \<in> set ws. 0 < w"
  shows "0 \<le> m - sum_list (baseMinutes m ws)"
    and "m - sum_list (baseMinutes m ws) < int (length ws)"
proof -
  let ?W = "sum_list ws"
  let ?B = "sum_list (baseMinutes m ws)"
  let ?R = "sum_list (remainders m ws)"
  have W: "0 < ?W" using ne pos by (rule sum_list_positive)
  have "m * ?W = ?W * ?B + ?R"
    using sum_list_split_div_mod [of m ws ?W] sum_list_scale [of m ws]
    by (simp add: baseMinutes_def remainders_def)
  then have eq: "?W * (m - ?B) = ?R" by (simp add: algebra_simps)
  have R: "0 \<le> ?R" "?R \<le> int (length ws) * (?W - 1)"
    using sum_list_mod_bounds [OF W, of "\<lambda>w. m * w" ws] by (simp_all add: remainders_def)
  from eq R(1) W show "0 \<le> m - ?B"
    by (metis zero_le_mult_iff not_less)
  have "int (length ws) * (?W - 1) < int (length ws) * ?W"
    using ne by simp
  with eq R(2) have "?W * (m - ?B) < ?W * int (length ws)" by (simp add: mult.commute)
  with W show "m - ?B < int (length ws)" by (simp add: mult_less_cancel_left_pos)
qed

lemma bonusIndices_props:
  assumes ne: "ws \<noteq> []" and pos: "\<forall>w \<in> set ws. 0 < w"
  shows "distinct (bonusIndices m ws)"
    and "set (bonusIndices m ws) \<subseteq> set [0..<length ws]"
    and "int (length (bonusIndices m ws)) = m - sum_list (baseMinutes m ws)"
proof -
  let ?order = "sort_key (\<lambda>i. - (remainders m ws ! i)) [0..<length ws]"
  have d: "distinct ?order" by simp
  show "distinct (bonusIndices m ws)"
    unfolding bonusIndices_def using d by (rule distinct_take)
  have "set (bonusIndices m ws) \<subseteq> set ?order"
    unfolding bonusIndices_def by (rule set_take_subset)
  then show "set (bonusIndices m ws) \<subseteq> set [0..<length ws]" by simp
  have "length ?order = length ws" by simp
  moreover note leftover_bounds [OF ne pos, of m]
  ultimately show "int (length (bonusIndices m ws)) = m - sum_list (baseMinutes m ws)"
    by (simp add: bonusIndices_def)
qed

lemma largestRemainder_length: "length (largestRemainder m ws) = length ws"
  by (simp add: largestRemainder_def)

lemma largestRemainder_sum:
  assumes ne: "ws \<noteq> []" and pos: "\<forall>w \<in> set ws. 0 < w"
  shows "sum_list (largestRemainder m ws) = m"
proof -
  let ?n = "length ws"
  have len: "length (baseMinutes m ws) = ?n" by (simp add: baseMinutes_def)
  have "sum_list (largestRemainder m ws)
          = sum_list (map (\<lambda>i. baseMinutes m ws ! i) [0..<?n])
            + sum_list (map (\<lambda>i. if i \<in> set (bonusIndices m ws) then (1::int) else 0) [0..<?n])"
    by (simp add: largestRemainder_def sum_list_addf)
  also have "map (\<lambda>i. baseMinutes m ws ! i) [0..<?n] = baseMinutes m ws"
    using len by (metis map_nth)
  also have "sum_list (map (\<lambda>i. if i \<in> set (bonusIndices m ws) then (1::int) else 0) [0..<?n])
               = int (length (bonusIndices m ws))"
    using bonusIndices_props(1,2) [OF ne pos, of m] by (intro sum_list_indicator) simp_all
  also have "\<dots> = m - sum_list (baseMinutes m ws)"
    by (rule bonusIndices_props(3) [OF ne pos])
  finally show ?thesis by simp
qed

lemma dropLowestWeighted_subset: "set (dropLowestWeighted archs) \<subseteq> set archs"
  unfolding dropLowestWeighted_def using removeFirstWhere_subset [of _ "rev archs"] by simp

lemma dropLowestWeighted_nonempty:
  assumes "2 \<le> length archs"
  shows "dropLowestWeighted archs \<noteq> []"
proof -
  from assms have "archs \<noteq> []" by auto
  then have "Suc (length (dropLowestWeighted archs)) = length archs"
    by (rule dropLowestWeighted_length)
  with assms have "1 \<le> length (dropLowestWeighted archs)" by linarith
  then show ?thesis by auto
qed

lemma allocate_stop:
  "length archs \<le> 1 \<or> list_all (\<lambda>d. 1 \<le> d) (largestRemainder m (map arch_weight archs)) \<Longrightarrow>
     allocate m archs = zip archs (largestRemainder m (map arch_weight archs))"
  by (subst allocate.simps) (simp add: Let_def)

lemma allocate_retry:
  "\<not> (length archs \<le> 1 \<or> list_all (\<lambda>d. 1 \<le> d) (largestRemainder m (map arch_weight archs))) \<Longrightarrow>
     allocate m archs = allocate m (dropLowestWeighted archs)"
  by (subst allocate.simps) (simp add: Let_def)

lemma allocate_sum:
  "archs \<noteq> [] \<Longrightarrow> \<forall>a \<in> set archs. 0 < arch_weight a \<Longrightarrow>
     sum_list (map snd (allocate m archs)) = m"
proof (induction m archs rule: allocate.induct)
  case (1 m archs)
  let ?durations = "largestRemainder m (map arch_weight archs)"
  show ?case
  proof (cases "length archs \<le> 1 \<or> list_all (\<lambda>d. 1 \<le> d) ?durations")
    case True
    then have "allocate m archs = zip archs ?durations" by (rule allocate_stop)
    moreover have "map snd (zip archs ?durations) = ?durations"
      by (simp add: largestRemainder_length)
    moreover have "sum_list ?durations = m"
      using "1.prems" by (intro largestRemainder_sum) simp_all
    ultimately show ?thesis by simp
  next
    case False
    then have eq: "allocate m archs = allocate m (dropLowestWeighted archs)"
      by (rule allocate_retry)
    from False have "2 \<le> length archs" by simp
    then have "dropLowestWeighted archs \<noteq> []" by (rule dropLowestWeighted_nonempty)
    moreover have "\<forall>a \<in> set (dropLowestWeighted archs). 0 < arch_weight a"
      using "1.prems"(2) dropLowestWeighted_subset by blast
    ultimately show ?thesis
      using "1.IH" [OF refl False] eq by simp
  qed
qed

lemma allocate_floor:
  "archs \<noteq> [] \<Longrightarrow> \<forall>a \<in> set archs. 0 < arch_weight a \<Longrightarrow> 1 \<le> m \<Longrightarrow>
     \<forall>d \<in> set (map snd (allocate m archs)). 1 \<le> d"
proof (induction m archs rule: allocate.induct)
  case (1 m archs)
  let ?durations = "largestRemainder m (map arch_weight archs)"
  have len: "length ?durations = length archs" by (simp add: largestRemainder_length)
  show ?case
  proof (cases "length archs \<le> 1 \<or> list_all (\<lambda>d. 1 \<le> d) ?durations")
    case True
    then have eq: "allocate m archs = zip archs ?durations" by (rule allocate_stop)
    have ds: "map snd (zip archs ?durations) = ?durations"
      by (simp add: largestRemainder_length)
    show ?thesis
    proof (cases "list_all (\<lambda>d. 1 \<le> d) ?durations")
      case True
      then show ?thesis using eq ds by (simp add: list_all_iff)
    next
      case False
      with True have "length archs \<le> 1" by simp
      with "1.prems"(1) have "length ?durations = 1" using len by (cases archs) auto
      then obtain d where d: "?durations = [d]" by (cases ?durations) auto
      have "sum_list ?durations = m"
        using "1.prems" by (intro largestRemainder_sum) simp_all
      with d have "d = m" by simp
      with d "1.prems"(3) show ?thesis using eq ds by simp
    qed
  next
    case False
    then have eq: "allocate m archs = allocate m (dropLowestWeighted archs)"
      by (rule allocate_retry)
    from False have "2 \<le> length archs" by simp
    then have "dropLowestWeighted archs \<noteq> []" by (rule dropLowestWeighted_nonempty)
    moreover have "\<forall>a \<in> set (dropLowestWeighted archs). 0 < arch_weight a"
      using "1.prems"(2) dropLowestWeighted_subset by blast
    ultimately show ?thesis
      using "1.IH" [OF refl False] eq "1.prems"(3) by simp
  qed
qed

lemma allocate_nonempty:
  "archs \<noteq> [] \<Longrightarrow> allocate m archs \<noteq> []"
proof (induction m archs rule: allocate.induct)
  case (1 m archs)
  let ?durations = "largestRemainder m (map arch_weight archs)"
  show ?case
  proof (cases "length archs \<le> 1 \<or> list_all (\<lambda>d. 1 \<le> d) ?durations")
    case True
    then have eq: "allocate m archs = zip archs ?durations" by (rule allocate_stop)
    have "length (zip archs ?durations) = length archs"
      by (simp add: largestRemainder_length)
    with "1.prems" eq show ?thesis by auto
  next
    case False
    then have eq: "allocate m archs = allocate m (dropLowestWeighted archs)"
      by (rule allocate_retry)
    from False have "2 \<le> length archs" by simp
    then have "dropLowestWeighted archs \<noteq> []" by (rule dropLowestWeighted_nonempty)
    then show ?thesis
      using "1.IH" [OF refl False] eq by simp
  qed
qed

lemma outline_of_blueprint:
  "outline (generateVideoBlueprint h raw) = allocateOutline h (normalizeBrief h raw)"
  by (simp add: generateVideoBlueprint_def Let_def)

lemma durations_of_outline:
  "map estimatedDuration (allocateOutline h brief)
     = map snd (allocate (brief_minutes brief) (archetypesFor h brief))"
  by (simp add: allocateOutline_def case_prod_beta comp_def)

lemma normalized_minutes:
  "minMinutes \<le> brief_minutes (normalizeBrief h raw)"
  "brief_minutes (normalizeBrief h raw) \<le> maxMinutes"
  "minMinutes \<le> brief_minutes raw \<Longrightarrow> brief_minutes raw \<le> maxMinutes \<Longrightarrow>
     brief_minutes (normalizeBrief h raw) = brief_minutes raw"
  by (simp_all add: normalizeBrief_def minMinutes_def maxMinutes_def)

lemma usableArchetypes_iff:
  "usableArchetypes archs \<longleftrightarrow> archs \<noteq> [] \<and> (\<forall>a \<in> set archs. 0 < arch_weight a)"
  by (simp add: usableArchetypes_def list_all_iff)

text \<open>
  Claim C1. For every brief whose minutes lie inside the supported bound (from
  \<open>minMinutes\<close> to \<open>maxMinutes\<close>), the estimated durations of the outline returned by
  \<^verbatim>\<open>generateVideoBlueprint\<close> sum exactly to the requested minutes; the page's
  \<^verbatim>\<open>outlineDurationTotal\<close> computes that sum. The category table gives, for every
  brief, an archetype list that is not empty and has positive weights.
\<close>

theorem outline_durations_sum_to_minutes:
  assumes "\<forall>b. usableArchetypes (archetypesFor h b)"
    and "minMinutes \<le> brief_minutes brief" and "brief_minutes brief \<le> maxMinutes"
  shows "outlineDurationTotal (Some (generateVideoBlueprint h brief)) = brief_minutes brief
       \<and> sum_list (map estimatedDuration (outline (generateVideoBlueprint h brief)))
           = brief_minutes brief"
proof -
  let ?b = "normalizeBrief h brief"
  from assms(1) have "usableArchetypes (archetypesFor h ?b)" by (rule spec)
  then have u: "archetypesFor h ?b \<noteq> []" "\<forall>a \<in> set (archetypesFor h ?b). 0 < arch_weight a"
    by (simp_all add: usableArchetypes_iff)
  have "sum_list (map estimatedDuration (outline (generateVideoBlueprint h brief)))
          = sum_list (map snd (allocate (brief_minutes ?b) (archetypesFor h ?b)))"
    by (simp only: outline_of_blueprint durations_of_outline)
  also have "\<dots> = brief_minutes ?b" using u by (rule allocate_sum)
  also have "\<dots> = brief_minutes brief" using assms(2,3) by (rule normalized_minutes(3))
  finally have s: "sum_list (map estimatedDuration (outline (generateVideoBlueprint h brief)))
                     = brief_minutes brief" .
  then show ?thesis by (simp add: outlineDurationTotal_def foldl_durations)
qed

theorem outline_durations_sum_to_minutes_witness:
  "(\<forall>b. usableArchetypes (archetypesFor sampleHeuristics b)) \<and>
   minMinutes \<le> brief_minutes sampleBrief \<and>
   brief_minutes sampleBrief \<le> maxMinutes \<and>
   outlineDurationTotal (Some (generateVideoBlueprint sampleHeuristics sampleBrief)) = 10"
proof -
  have u: "\<forall>b. usableArchetypes (archetypesFor sampleHeuristics b)"
    by (simp add: sampleHeuristics_def usableArchetypes_def sampleArchetypes_def)
  have lo: "minMinutes \<le> brief_minutes sampleBrief"
    by (simp add: sampleBrief_def minMinutes_def)
  have hi: "brief_minutes sampleBrief \<le> maxMinutes"
    by (simp add: sampleBrief_def maxMinutes_def)
  have "brief_minutes sampleBrief = 10"
    by (simp add: sampleBrief_def)
  with outline_durations_sum_to_minutes [OF u lo hi] u lo hi show ?thesis
    by simp
qed

subsection \<open>Script and chapter markers\<close>

lemma script_of_blueprint:
  "script (generateVideoBlueprint h raw)
     = composeScript h (normalizeBrief h raw) (outline (generateVideoBlueprint h raw))"
  by (simp add: generateVideoBlueprint_def Let_def)

lemma map_after_snd: "map (\<lambda>p. f (snd p)) ps = map f (map snd ps)"
  by (induction ps) simp_all

lemma composeScript_titles:
  "map script_title (composeScript h brief sections) = map title sections"
proof -
  have "map script_title (composeScript h brief sections)
          = map (\<lambda>p. title (snd p)) (enumerate 0 sections)"
    by (simp add: composeScript_def case_prod_beta)
  also have "\<dots> = map title (map snd (enumerate 0 sections))"
    by (rule map_after_snd)
  also have "\<dots> = map title sections"
    by (simp only: map_snd_enumerate)
  finally show ?thesis .
qed

lemma composeScript_length: "length (composeScript h brief sections) = length sections"
  by (simp add: composeScript_def)

text \<open>
  Claim C2. The blueprint returned by \<^verbatim>\<open>generateVideoBlueprint\<close> has as many script
  sections as outline sections, and the script section at every index carries the
  title of the outline section at that index.
\<close>

theorem script_follows_outline:
  "length (script (generateVideoBlueprint h brief))
     = length (outline (generateVideoBlueprint h brief)) \<and>
   map script_title (script (generateVideoBlueprint h brief))
     = map title (outline (generateVideoBlueprint h brief)) \<and>
   (\<forall>i < length (outline (generateVideoBlueprint h brief)).
      script_title (script (generateVideoBlueprint h brief) ! i)
        = title (outline (generateVideoBlueprint h brief) ! i))"
proof -
  let ?bp = "generateVideoBlueprint h brief"
  have len: "length (script ?bp) = length (outline ?bp)"
    by (subst script_of_blueprint) (rule composeScript_length)
  have titles: "map script_title (script ?bp) = map title (outline ?bp)"
    by (subst script_of_blueprint) (rule composeScript_titles)
  have "\<forall>i < length (outline ?bp). script_title (script ?bp ! i) = title (outline ?bp ! i)"
  proof (intro allI impI)
    fix i assume i: "i < length (outline ?bp)"
    then have "script_title (script ?bp ! i) = map script_title (script ?bp) ! i"
      using len by simp
    also have "\<dots> = map title (outline ?bp) ! i" by (simp only: titles)
    also have "\<dots> = title (outline ?bp ! i)" using i by simp
    finally show "script_title (script ?bp ! i) = title (outline ?bp ! i)" .
  qed
  with len titles show ?thesis by blast
qed

lemma sample_outline:
  "map (\<lambda>section. (title section, estimatedDuration section))
       (outline (generateVideoBlueprint sampleHeuristics sampleBrief))
     = [(utf16 ''Hook'', 2), (utf16 ''Context'', 2), (utf16 ''Core teaching'', 3),
        (utf16 ''Case study'', 2), (utf16 ''Recap'', 1)]"
  by code_simp

theorem script_follows_outline_witness:
  "length (outline (generateVideoBlueprint sampleHeuristics sampleBrief)) = 5 \<and>
   script_title (script (generateVideoBlueprint sampleHeuristics sampleBrief) ! 2)
     = title (outline (generateVideoBlueprint sampleHeuristics sampleBrief) ! 2) \<and>
   map script_title (script (generateVideoBlueprint sampleHeuristics sampleBrief))
     = [utf16 ''Hook'', utf16 ''Context'', utf16 ''Core teaching'', utf16 ''Case study'',
        utf16 ''Recap'']"
proof -
  let ?bp = "generateVideoBlueprint sampleHeuristics sampleBrief"
  note follows = script_follows_outline [of sampleHeuristics sampleBrief]
  have "length (map (\<lambda>section. (title section, estimatedDuration section)) (outline ?bp)) = 5"
    by (simp only: sample_outline) simp
  then have l: "length (outline ?bp) = 5" by simp
  have "map fst (map (\<lambda>section. (title section, estimatedDuration section)) (outline ?bp))
          = [utf16 ''Hook'', utf16 ''Context'', utf16 ''Core teaching'', utf16 ''Case study'',
             utf16 ''Recap'']"
    by (simp only: sample_outline) simp
  then have t: "map title (outline ?bp)
          = [utf16 ''Hook'', utf16 ''Context'', utf16 ''Core teaching'', utf16 ''Case study'',
             utf16 ''Recap'']"
    by (simp add: comp_def)
  have "2 < length (outline ?bp)" by (simp add: l)
  with follows have "script_title (script ?bp ! 2) = title (outline ?bp ! 2)" by blast
  moreover from follows t have "map script_title (script ?bp)
          = [utf16 ''Hook'', utf16 ''Context'', utf16 ''Core teaching'', utf16 ''Case study'',
             utf16 ''Recap'']"
    by (simp only:)
  ultimately show ?thesis using l by blast
qed

lemma markers_of_blueprint:
  "chapterMarkers (seo (generateVideoBlueprint h raw))
     = chapterMarkersOf (outline (generateVideoBlueprint h raw))"
  by (simp add: generateVideoBlueprint_def Let_def)

lemma chapterMarkersOf_length: "length (chapterMarkersOf sections) = length sections"
  by (simp add: chapterMarkersOf_def cumulativeStarts_length)

lemma chapterMarkersOf_labels: "map label (chapterMarkersOf sections) = map title sections"
proof -
  let ?pairs = "zip (cumulativeStarts 0 (map estimatedDuration sections)) sections"
  have "map label (chapterMarkersOf sections) = map (\<lambda>p. title (snd p)) ?pairs"
    by (simp add: chapterMarkersOf_def case_prod_beta)
  also have "\<dots> = map title (map snd ?pairs)"
    by (simp add: comp_def)
  also have "map snd ?pairs = sections"
    by (simp add: cumulativeStarts_length)
  finally show ?thesis .
qed

lemma chapterMarkersOf_times:
  "map (\<lambda>marker. timestampSeconds (timestamp marker)) (chapterMarkersOf sections)
     = map Some (map (\<lambda>start. 60 * nat start)
                     (cumulativeStarts 0 (map estimatedDuration sections)))"
proof -
  let ?starts = "cumulativeStarts 0 (map estimatedDuration sections)"
  have "map (\<lambda>marker. timestampSeconds (timestamp marker)) (chapterMarkersOf sections)
          = map (\<lambda>p. Some (60 * nat (fst p))) (zip ?starts sections)"
    by (simp add: chapterMarkersOf_def case_prod_beta timestampSeconds_formatTimestamp)
  also have "\<dots> = map Some (map (\<lambda>start. 60 * nat start) (map fst (zip ?starts sections)))"
    by (simp add: comp_def)
  also have "map fst (zip ?starts sections) = ?starts"
    by (simp add: cumulativeStarts_length)
  finally show ?thesis .
qed

lemma seconds_increasing:
  assumes "sorted_wrt (<) starts" and "\<forall>s \<in> set starts. (0::int) \<le> s"
  shows "sorted_wrt (<) (map (\<lambda>start. 60 * nat start) starts)"
  using assms by (induction starts) auto

lemma chapterMarkersOf_first:
  "sections \<noteq> [] \<Longrightarrow> timestamp (hd (chapterMarkersOf sections)) = utf16 ''0:00''"
proof -
  assume "sections \<noteq> []"
  then obtain s rest where "sections = s # rest" by (cases sections) auto
  then have "timestamp (hd (chapterMarkersOf sections)) = formatTimestamp 0"
    by (simp add: chapterMarkersOf_def)
  also have "\<dots> = utf16 ''0:00''"
    by (simp add: formatTimestamp_def natToString.simps [of 0] utf16_def)
  finally show ?thesis .
qed

text \<open>
  Claim C3. The blueprint's chapter markers are one for each outline section, labelled
  with the sections' titles in order; read as times, their timestamps are strictly
  increasing; and the first marker's timestamp is \<^verbatim>\<open>0:00\<close>. The category table gives,
  for every brief, an archetype list that is not empty and has positive weights.
\<close>

theorem chapter_markers_follow_outline:
  assumes "\<forall>b. usableArchetypes (archetypesFor h b)"
  shows
  "length (chapterMarkers (seo (generateVideoBlueprint h brief)))
     = length (outline (generateVideoBlueprint h brief)) \<and>
   map label (chapterMarkers (seo (generateVideoBlueprint h brief)))
     = map title (outline (generateVideoBlueprint h brief)) \<and>
   (\<exists>seconds.
      map (\<lambda>marker. timestampSeconds (timestamp marker))
          (chapterMarkers (seo (generateVideoBlueprint h brief))) = map Some seconds \<and>
      sorted_wrt (<) seconds) \<and>
   chapterMarkers (seo (generateVideoBlueprint h brief)) \<noteq> [] \<and>
   timestamp (hd (chapterMarkers (seo (generateVideoBlueprint h brief)))) = utf16 ''0:00'' \<and>
   timestampSeconds (timestamp (hd (chapterMarkers (seo (generateVideoBlueprint h brief))))) = Some 0"
proof -
  let ?bp = "generateVideoBlueprint h brief"
  let ?b = "normalizeBrief h brief"
  let ?durations = "map estimatedDuration (outline ?bp)"
  let ?starts = "cumulativeStarts 0 ?durations"
  from assms have "usableArchetypes (archetypesFor h ?b)" by (rule spec)
  then have u: "archetypesFor h ?b \<noteq> []" "\<forall>a \<in> set (archetypesFor h ?b). 0 < arch_weight a"
    by (simp_all add: usableArchetypes_iff)
  have m: "1 \<le> brief_minutes ?b"
    using normalized_minutes(1) [of h brief] by (simp add: minMinutes_def)
  have d: "?durations = map snd (allocate (brief_minutes ?b) (archetypesFor h ?b))"
    by (simp only: outline_of_blueprint durations_of_outline)
  have floor: "\<forall>d \<in> set ?durations. 1 \<le> d"
    unfolding d using u m by (rule allocate_floor)
  have "allocate (brief_minutes ?b) (archetypesFor h ?b) \<noteq> []"
    using u(1) by (rule allocate_nonempty)
  then have ne: "outline ?bp \<noteq> []"
    by (simp add: outline_of_blueprint allocateOutline_def)
  have len: "length (chapterMarkers (seo ?bp)) = length (outline ?bp)"
    by (simp only: markers_of_blueprint chapterMarkersOf_length)
  have labels: "map label (chapterMarkers (seo ?bp)) = map title (outline ?bp)"
    by (simp only: markers_of_blueprint chapterMarkersOf_labels)
  from cumulativeStarts_increasing [OF floor, of 0]
  have inc: "sorted_wrt (<) ?starts" "\<forall>s \<in> set ?starts. 0 \<le> s" by simp_all
  have times: "map (\<lambda>marker. timestampSeconds (timestamp marker)) (chapterMarkers (seo ?bp))
                 = map Some (map (\<lambda>start. 60 * nat start) ?starts)"
    by (simp only: markers_of_blueprint chapterMarkersOf_times)
  have sorted: "sorted_wrt (<) (map (\<lambda>start. 60 * nat start) ?starts)"
    using inc by (rule seconds_increasing)
  have nonempty: "chapterMarkers (seo ?bp) \<noteq> []"
    using len ne by auto
  have first: "timestamp (hd (chapterMarkers (seo ?bp))) = utf16 ''0:00''"
    unfolding markers_of_blueprint using ne by (rule chapterMarkersOf_first)
  have "formatTimestamp 0 = utf16 ''0:00''"
    by (simp add: formatTimestamp_def natToString.simps [of 0] utf16_def)
  then have zero: "timestampSeconds (timestamp (hd (chapterMarkers (seo ?bp)))) = Some 0"
    using timestampSeconds_formatTimestamp [of 0] by (simp add: first)
  from len labels times sorted nonempty first zero show ?thesis by blast
qed

lemma sample_markers:
  "map timestamp (chapterMarkers (seo (generateVideoBlueprint sampleHeuristics sampleBrief)))
     = [utf16 ''0:00'', utf16 ''2:00'', utf16 ''4:00'', utf16 ''7:00'', utf16 ''9:00'']"
  by code_simp

theorem chapter_markers_follow_outline_witness:
  "(\<forall>b. usableArchetypes (archetypesFor sampleHeuristics b)) \<and>
   length (chapterMarkers (seo (generateVideoBlueprint sampleHeuristics sampleBrief)))
     = length (outline (generateVideoBlueprint sampleHeuristics sampleBrief)) \<and>
   timestamp (hd (chapterMarkers (seo (generateVideoBlueprint sampleHeuristics sampleBrief))))
     = utf16 ''0:00'' \<and>
   map timestamp (chapterMarkers (seo (generateVideoBlueprint sampleHeuristics sampleBrief)))
     = [utf16 ''0:00'', utf16 ''2:00'', utf16 ''4:00'', utf16 ''7:00'', utf16 ''9:00'']"
proof -
  have u: "\<forall>b. usableArchetypes (archetypesFor sampleHeuristics b)"
    by (simp add: sampleHeuristics_def usableArchetypes_def sampleArchetypes_def)
  from chapter_markers_follow_outline [OF u] u sample_markers show ?thesis
    by blast
qed

end
